theory Spec2Isabelle
  imports Complex_Main
begin

section \<open>The activation entry point of the notebook extension (extension.ts)\<close>

text \<open>
  A shallow embedding of \<^verbatim>\<open>src/dotnet-interactive-vscode/src/vscode/extension.ts\<close>.
  Asynchronous functions are modelled as computations that return the list of calls they
  made on the host and on their collaborators, together with either the error that
  rejected them or their value. Functions, constants and types that the file imports from
  modules which are not part of the fragment are parameters of the model.
\<close>

subsection \<open>JavaScript values\<close>

text \<open>
  Configuration values and notebook metadata are JavaScript values. A finite number is
  a rational (every finite double is one; \<open>-0\<close> is identified with \<open>0\<close>, from which
  truthiness does not tell it apart).
\<close>

datatype jsnum = NaN | Infinity bool | Finite rat

datatype jsvalue =
    JUndefined
  | JNull
  | JBool bool
  | JNumber jsnum
  | JString string
  | JArray "jsvalue list"
  | JObject "(string \<times> jsvalue) list"

text \<open>ToBoolean: the falsy values are undefined, null, false, 0, NaN and the empty string.\<close>

fun truthy :: "jsvalue \<Rightarrow> bool" where
  "truthy JUndefined = False"
| "truthy JNull = False"
| "truthy (JBool b) = b"
| "truthy (JNumber NaN) = False"
| "truthy (JNumber (Infinity s)) = True"
| "truthy (JNumber (Finite q)) = (q \<noteq> 0)"
| "truthy (JString s) = (s \<noteq> [])"
| "truthy (JArray xs) = True"
| "truthy (JObject kvs) = True"

text \<open>The operator \<^verbatim>\<open>a || b\<close>.\<close>

definition js_or :: "jsvalue \<Rightarrow> jsvalue \<Rightarrow> jsvalue" where
  "js_or a b = (if truthy a then a else b)"

subsection \<open>The host's configuration\<close>

text \<open>
  The settings of the section \<^verbatim>\<open>dotnet-interactive\<close>, as the host holds them at one
  moment: a setting that is absent reads as undefined.
\<close>

type_synonym settings = "string \<Rightarrow> jsvalue"

text \<open>
  \<^verbatim>\<open>vscode.workspace.getConfiguration('dotnet-interactive')\<close> returns a configuration
  item. An item holds the values of the moment it was obtained: these are the "cached
  values" of the comment at line 40, which asks for "a fresh config item" to avoid them,
  and \<^verbatim>\<open>getDotnetPath\<close> (line 131) obtains an item of its own. \<^verbatim>\<open>config.get(key)\<close>
  reads the item.
\<close>

record WorkspaceConfiguration =
  cached :: settings

definition getConfiguration :: "settings \<Rightarrow> WorkspaceConfiguration" where
  "getConfiguration host = \<lparr>cached = host\<rparr>"

definition config_get :: "WorkspaceConfiguration \<Rightarrow> string \<Rightarrow> jsvalue" where
  "config_get config key = cached config key"

subsection \<open>Asynchronous computations\<close>

datatype error = TypeError | Rejected string

datatype uri = Uri_parse string | Uri_file string

text \<open>
  The calls a computation makes on the host, on the diagnostics channel and on a kernel
  transport, in the order it makes them. \<open>'p\<close> is the type of the process-start
  description that \<^verbatim>\<open>processArguments\<close> builds; a transport is named by the one it was
  constructed with.
\<close>

datatype 'p event =
    RegisterAcquisitionCommands
  | RegisterKernelCommands
  | RegisterFileCommands
  | CreateOutputChannel string
  | AppendLine string
  | Execute string "string list"
  | ExecuteCommand string jsvalue
  | NewStdioKernelTransport 'p
  | WaitForReady 'p
  | AsExternalUri uri
  | SetExternalUri 'p uri

type_synonym ('p, 'a) async = "'p event list \<times> (error + 'a)"

definition resolve :: "'a \<Rightarrow> ('p, 'a) async" where
  "resolve x = ([], Inr x)"

definition reject :: "error \<Rightarrow> ('p, 'a) async" where
  "reject e = ([], Inl e)"

definition call :: "'p event \<Rightarrow> error + 'a \<Rightarrow> ('p, 'a) async" where
  "call ev outcome = ([ev], outcome)"

text \<open>\<^verbatim>\<open>const x = await m; f x\<close>: a rejection of \<open>m\<close> ends the computation.\<close>

definition await :: "('p, 'a) async \<Rightarrow> ('a \<Rightarrow> ('p, 'b) async) \<Rightarrow> ('p, 'b) async" where
  "await m f =
     (case m of
        (t, Inl e) \<Rightarrow> (t, Inl e)
      | (t, Inr x) \<Rightarrow> (case f x of (t', r) \<Rightarrow> (t @ t', r)))"

text \<open>\<^verbatim>\<open>x!.field\<close> at run time: reading a field of undefined throws a TypeError.\<close>

definition field_of :: "'a option \<Rightarrow> ('a \<Rightarrow> 'b) \<Rightarrow> ('p, 'b) async" where
  "field_of x f = (case x of None \<Rightarrow> reject TypeError | Some v \<Rightarrow> resolve (f v))"

subsection \<open>Imported declarations and the outcomes of external calls\<close>

record ExecResult =
  exec_code :: int
  exec_output :: string

record IDotnetAcquireResult =
  ar_dotnetPath :: string

record InteractiveLaunchOptions =
  lo_workingDirectory :: string

record ArgsTemplate =
  tpl_args :: jsvalue
  tpl_workingDirectory :: jsvalue

record DotNetCellMetadata =
  cm_language :: string

text \<open>
  What the imported modules provide (\<^verbatim>\<open>../utilities\<close>, \<^verbatim>\<open>../interactiveNotebook\<close>,
  \<^verbatim>\<open>../ipynbUtilities\<close>, \<^verbatim>\<open>./notebookKernel\<close>, \<^verbatim>\<open>compare-versions\<close>): parameters.
  The helper functions are taken to be pure and to return; the comparison of versions
  may throw. \<open>toString_other\<close> is the language's conversion to a string of the values
  whose string form is not written out below (see \<open>template_literal\<close>).
\<close>

record 'p modules =
  processArguments :: "ArgsTemplate \<Rightarrow> string \<Rightarrow> string \<Rightarrow> string \<Rightarrow> 'p"
  compareVersions_ge :: "string \<Rightarrow> jsvalue \<Rightarrow> error + bool"
  KernelId :: string
  notebookCellLanguages :: "string list"
  isDotnetInteractiveLanguage :: "string \<Rightarrow> bool"
  getSimpleLanguage :: "string \<Rightarrow> string"
  getDotNetMetadata :: "jsvalue \<Rightarrow> DotNetCellMetadata"
  getLanguageInfoMetadata :: "jsvalue \<Rightarrow> jsvalue"
  getCellLanguage :: "DotNetCellMetadata \<Rightarrow> jsvalue \<Rightarrow> string \<Rightarrow> string"
  withDotNetMetadata :: "jsvalue \<Rightarrow> DotNetCellMetadata \<Rightarrow> jsvalue"
  toString_other :: "jsvalue \<Rightarrow> string"

text \<open>
  How the outside answers the calls of one computation: the process run by
  \<^verbatim>\<open>execute\<close>, the two acquisition commands, the constructor of the transport (it
  starts the kernel process), the transport's \<^verbatim>\<open>waitForReady\<close> (the factory discards the
  value it resolves with), the value the factory then reads from the field
  \<^verbatim>\<open>transport.httpPort\<close> (any value, undefined if the transport has not set it), the
  host's \<^verbatim>\<open>asExternalUri\<close> and the transport's \<^verbatim>\<open>setExternalUri\<close>.
\<close>

record 'p outside =
  execute_outcome :: "string \<Rightarrow> string list \<Rightarrow> error + ExecResult"
  dotnet_acquire_outcome :: "jsvalue \<Rightarrow> error + IDotnetAcquireResult option"
  interactive_acquire_outcome :: "jsvalue \<Rightarrow> error + InteractiveLaunchOptions option"
  newTransport_outcome :: "'p \<Rightarrow> error + unit"
  waitForReady_outcome :: "'p \<Rightarrow> error + unit"
  httpPort_read :: "'p \<Rightarrow> jsvalue"
  asExternalUri_outcome :: "uri \<Rightarrow> error + uri"
  setExternalUri_outcome :: "'p \<Rightarrow> uri \<Rightarrow> error + unit"

subsection \<open>Acquiring the runtime (lines 128 to 157)\<close>

definition isDotnetUpToDate :: "'p modules \<Rightarrow> 'p outside \<Rightarrow> jsvalue \<Rightarrow> ('p, bool) async" where
  "isDotnetUpToDate md out minVersion =
     await (call (Execute ''dotnet'' [''--version''])
              (execute_outcome out ''dotnet'' [''--version''])) (\<lambda>result.
       if exec_code result = 0
       then (case compareVersions_ge md (exec_output result) minVersion of
               Inl e \<Rightarrow> reject e
             | Inr b \<Rightarrow> resolve b)
       else resolve False)"

definition dotnet_acquire_args :: "jsvalue \<Rightarrow> jsvalue" where
  "dotnet_acquire_args minDotNetSdkVersion =
     JObject [(''version'', minDotNetSdkVersion),
              (''requestingExtensionId'', JString ''ms-dotnettools.dotnet-interactive-vscode'')]"

definition getDotnetPath :: "'p modules \<Rightarrow> 'p outside \<Rightarrow> settings \<Rightarrow> ('p, string) async" where
  "getDotnetPath md out host =
     (let config = getConfiguration host;
          minDotNetSdkVersion = config_get config ''minimumDotNetSdkVersion''
      in await (isDotnetUpToDate md out minDotNetSdkVersion) (\<lambda>upToDate.
         await (if upToDate then resolve ''dotnet''
                else await (call (ExecuteCommand ''dotnet.acquire''
                                    (dotnet_acquire_args minDotNetSdkVersion))
                              (dotnet_acquire_outcome out (dotnet_acquire_args minDotNetSdkVersion)))
                       (\<lambda>commandResult. field_of commandResult ar_dotnetPath)) (\<lambda>dotnetPath.
         await (call (AppendLine (''Using dotnet from \"'' @ dotnetPath @ ''\"'')) (Inr ())) (\<lambda>_.
         resolve dotnetPath))))"

definition getInteractiveLaunchOptions ::
  "'p outside \<Rightarrow> string \<Rightarrow> ('p, InteractiveLaunchOptions option) async" where
  "getInteractiveLaunchOptions out dotnetPath =
     (let installArgs = JObject [(''dotnetPath'', JString dotnetPath)]
      in call (ExecuteCommand ''dotnet-interactive.acquire'' installArgs)
           (interactive_acquire_outcome out installArgs))"

subsection \<open>The kernel transport, as the factory uses it\<close>

text \<open>
  The class \<^verbatim>\<open>StdioKernelTransport\<close> is imported. The factory constructs one, waits
  for it, reads its \<^verbatim>\<open>httpPort\<close> and sets its external URI; the outcome of each call
  and the value of the field come from outside.
\<close>

record 'p StdioKernelTransport =
  tr_processStart :: 'p
  tr_externalUri :: "uri option"

definition new_StdioKernelTransport ::
  "'p outside \<Rightarrow> 'p \<Rightarrow> ('p, 'p StdioKernelTransport) async" where
  "new_StdioKernelTransport out processStart =
     await (call (NewStdioKernelTransport processStart) (newTransport_outcome out processStart))
       (\<lambda>_. resolve \<lparr>tr_processStart = processStart, tr_externalUri = None\<rparr>)"

definition waitForReady :: "'p outside \<Rightarrow> 'p StdioKernelTransport \<Rightarrow> ('p, unit) async" where
  "waitForReady out transport =
     call (WaitForReady (tr_processStart transport))
       (waitForReady_outcome out (tr_processStart transport))"

definition httpPort :: "'p outside \<Rightarrow> 'p StdioKernelTransport \<Rightarrow> jsvalue" where
  "httpPort out transport = httpPort_read out (tr_processStart transport)"

definition setExternalUri ::
  "'p outside \<Rightarrow> 'p StdioKernelTransport \<Rightarrow> uri \<Rightarrow> ('p, 'p StdioKernelTransport) async" where
  "setExternalUri out transport externalUri =
     await (call (SetExternalUri (tr_processStart transport) externalUri)
              (setExternalUri_outcome out (tr_processStart transport) externalUri))
       (\<lambda>_. resolve (transport\<lparr>tr_externalUri := Some externalUri\<rparr>))"

text \<open>The decimal digits of a natural number.\<close>

definition digit_char :: "nat \<Rightarrow> char" where
  "digit_char d = ''0123456789'' ! d"

function decimal :: "nat \<Rightarrow> string" where
  "decimal n = (if n < 10 then [digit_char n] else decimal (n div 10) @ [digit_char (n mod 10)])"
  by pat_completeness auto
termination
  by (relation "measure (\<lambda>n. n)") auto

declare decimal.simps [simp del]

text \<open>
  A value in a template literal, \<^verbatim>\<open>`${v}`\<close>: undefined gives \<^verbatim>\<open>undefined\<close>, a string
  gives itself, and a number that is a natural number below \<open>2 ^ 53\<close> (exactly
  representable, and printed without an exponent) gives its decimal digits. The string
  form of every other value is left to \<open>toString_other\<close>.
\<close>

definition template_literal :: "'p modules \<Rightarrow> jsvalue \<Rightarrow> string" where
  "template_literal md v =
     (case v of
        JUndefined \<Rightarrow> ''undefined''
      | JString s \<Rightarrow> s
      | JNumber (Finite q) \<Rightarrow>
          (if 0 \<le> q \<and> of_int \<lfloor>q\<rfloor> = q \<and> q < 2 ^ 53 then decimal (nat \<lfloor>q\<rfloor>)
           else toString_other md v)
      | _ \<Rightarrow> toString_other md v)"

subsection \<open>Activation (lines 24 to 81)\<close>

datatype subscription =
    NotebookContentProvider string
  | NotebookKernelProvider "string list" string
  | OnDidChangeActiveNotebookKernel
  | OnDidChangeCellLanguage
  | OnDidCloseNotebookDocument
  | LanguageProviders jsvalue

text \<open>
  What \<^verbatim>\<open>activate\<close> leaves behind: the values its closures captured (the configuration
  item of line 28 and the promise of line 32, settled with an error or with the path)
  and what it registered with the host.
\<close>

record activation =
  act_config :: WorkspaceConfiguration
  act_dotnetPromise :: "error + string"
  act_diagnosticDelay :: jsvalue
  act_subscriptions :: "subscription list"

text \<open>
  The factory passed to \<^verbatim>\<open>new ClientMapper\<close> (lines 35 to 60); \<open>out\<close> is the outside
  at the time of this creation. The notification object of lines 48 to 51 is only handed
  to the transport.
\<close>

definition clientFactory ::
  "'p modules \<Rightarrow> activation \<Rightarrow> 'p outside \<Rightarrow> string \<Rightarrow> ('p, 'p StdioKernelTransport) async" where
  "clientFactory md act out notebookPath =
     await (call (AppendLine (''Creating client for notebook \"'' @ notebookPath @ ''\"'')) (Inr ())) (\<lambda>_.
     await ([], act_dotnetPromise act) (\<lambda>dotnetPath.
     await (getInteractiveLaunchOptions out dotnetPath) (\<lambda>launchOptions.
     (let kernelTransportArgs = config_get (act_config act) ''kernelTransportArgs'';
          argsTemplate = \<lparr>tpl_args = kernelTransportArgs,
                          tpl_workingDirectory = config_get (act_config act) ''kernelTransportWorkingDirectory''\<rparr>
      in
     await (field_of launchOptions lo_workingDirectory) (\<lambda>workingDirectory.
     (let processStart = processArguments md argsTemplate notebookPath dotnetPath workingDirectory
      in
     await (new_StdioKernelTransport out processStart) (\<lambda>transport.
     await (waitForReady out transport) (\<lambda>_.
     await (call (AsExternalUri
                    (Uri_parse (''http://localhost:'' @ template_literal md (httpPort out transport))))
              (asExternalUri_outcome out
                 (Uri_parse (''http://localhost:'' @ template_literal md (httpPort out transport)))))
       (\<lambda>externalUri.
     await (setExternalUri out transport externalUri) (\<lambda>transport.
     resolve transport))))))))))"

text \<open>
  \<^verbatim>\<open>activate\<close>. Its body has no \<^verbatim>\<open>await\<close> of its own, so it runs to its end in one
  go. \<^verbatim>\<open>getDotnetPath\<close>, called at line 32, runs up to its first suspension, which is
  after its first call (the version check); its later calls come after the end of the
  body of \<^verbatim>\<open>activate\<close>.
\<close>

definition activate :: "'p modules \<Rightarrow> 'p outside \<Rightarrow> settings \<Rightarrow> 'p event list \<times> activation" where
  "activate md out host =
     (let config = getConfiguration host;
          dotnetPromise = getDotnetPath md out host;
          diagnosticDelay = js_or (config_get config ''liveDiagnosticDelay'') (JNumber (Finite 500));
          selector_viewType = [''dotnet-interactive'', ''dotnet-interactive-jupyter''];
          selector_filenamePattern = ''*.{dib,dotnet-interactive,ipynb}''
      in ([RegisterAcquisitionCommands, CreateOutputChannel ''.NET Interactive : diagnostics'']
            @ take 1 (fst dotnetPromise) @ [RegisterKernelCommands, RegisterFileCommands]
            @ drop 1 (fst dotnetPromise),
          \<lparr>act_config = config,
           act_dotnetPromise = snd dotnetPromise,
           act_diagnosticDelay = diagnosticDelay,
           act_subscriptions =
             [NotebookContentProvider ''dotnet-interactive'',
              NotebookContentProvider ''dotnet-interactive-jupyter'',
              NotebookKernelProvider selector_viewType selector_filenamePattern,
              OnDidChangeActiveNotebookKernel,
              OnDidChangeCellLanguage,
              OnDidCloseNotebookDocument,
              LanguageProviders diagnosticDelay]\<rparr>))"

text \<open>The delays handed to \<^verbatim>\<open>registerLanguageProviders\<close> among the registrations.\<close>

fun languageProviderDelays :: "subscription list \<Rightarrow> jsvalue list" where
  "languageProviderDelays [] = []"
| "languageProviderDelays (LanguageProviders d # ss) = d # languageProviderDelays ss"
| "languageProviderDelays (s # ss) = languageProviderDelays ss"

subsection \<open>Notebook documents of the host\<close>

text \<open>
  Cells are objects of the host: a document lists references to them, and \<^verbatim>\<open>===\<close>
  compares references. \<open>cell_text\<close> is what \<^verbatim>\<open>cell.document.getText()\<close> returns.
\<close>

datatype CellKind = Markdown | Code

type_synonym ref = nat

record NotebookCell =
  cell_cellKind :: CellKind
  cell_text :: string
  cell_language :: string
  cell_outputs :: "jsvalue list"
  cell_metadata :: jsvalue

type_synonym heap = "ref \<Rightarrow> NotebookCell"

record NotebookCellData =
  cellKind :: CellKind
  source :: string
  language :: string
  outputs :: "jsvalue list"
  metadata :: jsvalue

record NotebookDocument =
  doc_uri :: uri
  doc_cells :: "ref list"
  doc_languages :: "string list"
  doc_metadata :: jsvalue

record NotebookKernel =
  kernel_id :: string

text \<open>The two operations the file puts into a \<^verbatim>\<open>WorkspaceEdit\<close>.\<close>

datatype edit =
    ReplaceNotebookCells uri nat nat "NotebookCellData list"
  | ReplaceNotebookCellMetadata uri int jsvalue

text \<open>\<^verbatim>\<open>Array.prototype.findIndex\<close>: the first index that satisfies the predicate, or -1.\<close>

fun findIndex_from :: "('a \<Rightarrow> bool) \<Rightarrow> 'a list \<Rightarrow> int \<Rightarrow> int" where
  "findIndex_from P [] i = -1"
| "findIndex_from P (x # xs) i = (if P x then i else findIndex_from P xs (i + 1))"

definition findIndex :: "('a \<Rightarrow> bool) \<Rightarrow> 'a list \<Rightarrow> int" where
  "findIndex P xs = findIndex_from P xs 0"

subsection \<open>Keeping languages in sync (lines 86 to 126)\<close>

text \<open>
  Both handlers return the edit they passed to \<^verbatim>\<open>vscode.workspace.applyEdit\<close>, or
  \<open>None\<close> when they did not call it.
\<close>

definition updateCellLanguageInMetadata ::
  "'p modules \<Rightarrow> heap \<Rightarrow> ref \<Rightarrow> NotebookDocument \<Rightarrow> string \<Rightarrow> edit list option" where
  "updateCellLanguageInMetadata md h cell document lang =
     (if isDotnetInteractiveLanguage md lang
      then (let cellIndex = findIndex (\<lambda>c. c = cell) (doc_cells document)
            in if cellIndex \<ge> 0
               then (let cellMetadata = \<lparr>cm_language = getSimpleLanguage md lang\<rparr>;
                         metadata = withDotNetMetadata md (cell_metadata (h cell)) cellMetadata
                     in Some [ReplaceNotebookCellMetadata (doc_uri document) cellIndex metadata])
               else None)
      else None)"

text \<open>The loop of lines 111 to 121: \<open>cellData\<close> grows by one entry for each cell.\<close>

fun collect_cellData ::
  "'p modules \<Rightarrow> heap \<Rightarrow> jsvalue \<Rightarrow> ref list \<Rightarrow> NotebookCellData list \<Rightarrow> NotebookCellData list" where
  "collect_cellData md h documentLanguageInfo [] cellData = cellData"
| "collect_cellData md h documentLanguageInfo (c # cs) cellData =
     (let cell = h c;
          cellMetadata = getDotNetMetadata md (cell_metadata cell);
          newLanguage = getCellLanguage md cellMetadata documentLanguageInfo (cell_language cell)
      in collect_cellData md h documentLanguageInfo cs
           (cellData @ [\<lparr>cellKind = cell_cellKind cell,
                         source = cell_text cell,
                         language = newLanguage,
                         outputs = cell_outputs cell,
                         metadata = cell_metadata cell\<rparr>]))"

text \<open>
  \<^verbatim>\<open>updateDocumentLanguages\<close> also assigns the document's \<^verbatim>\<open>languages\<close>: it returns
  the document object as it leaves it, and the edit. \<^verbatim>\<open>e.kernel?.id\<close> is undefined
  when there is no kernel, and then differs from the string \<^verbatim>\<open>KernelId\<close>.
\<close>

definition updateDocumentLanguages ::
  "'p modules \<Rightarrow> heap \<Rightarrow> NotebookDocument \<Rightarrow> NotebookKernel option
     \<Rightarrow> NotebookDocument \<times> edit list option" where
  "updateDocumentLanguages md h document kernel' =
     (if map_option kernel_id kernel' = Some (KernelId md)
      then (let document' = document\<lparr>doc_languages := notebookCellLanguages md\<rparr>;
                documentLanguageInfo = getLanguageInfoMetadata md (doc_metadata document');
                cellData = collect_cellData md h documentLanguageInfo (doc_cells document') []
            in (document',
                Some [ReplaceNotebookCells (doc_uri document') 0 (length (doc_cells document')) cellData]))
      else (document, None))"

text \<open>
  What an applied edit does to the contents of a document's cells, on the host's side:
  \<^verbatim>\<open>replaceNotebookCells(uri, start, end, cells)\<close> puts \<open>cells\<close> in the place of the
  range from \<open>start\<close> to \<open>end\<close>, \<^verbatim>\<open>replaceNotebookCellMetadata(uri, index, metadata)\<close>
  sets the metadata of the cell at \<open>index\<close>.
\<close>

definition cell_contents :: "NotebookCell \<Rightarrow> NotebookCellData" where
  "cell_contents c =
     \<lparr>cellKind = cell_cellKind c, source = cell_text c, language = cell_language c,
      outputs = cell_outputs c, metadata = cell_metadata c\<rparr>"

fun apply_edit_op :: "edit \<Rightarrow> NotebookCellData list \<Rightarrow> NotebookCellData list" where
  "apply_edit_op (ReplaceNotebookCells u start end' cells) xs = take start xs @ cells @ drop end' xs"
| "apply_edit_op (ReplaceNotebookCellMetadata u i m) xs =
     (if 0 \<le> i \<and> i < int (length xs) then xs[nat i := (xs ! nat i)\<lparr>metadata := m\<rparr>] else xs)"

definition contents_after :: "heap \<Rightarrow> NotebookDocument \<Rightarrow> edit list option \<Rightarrow> NotebookCellData list" where
  "contents_after h document applied =
     (case applied of
        None \<Rightarrow> map (\<lambda>c. cell_contents (h c)) (doc_cells document)
      | Some ops \<Rightarrow> fold apply_edit_op ops (map (\<lambda>c. cell_contents (h c)) (doc_cells document)))"

subsection \<open>A session: activation, then client creations\<close>

text \<open>
  After activation the host's settings may change and the client mapper may invoke the
  factory, in any order. Each creation is listed with the settings the host holds at
  that moment and with the outside that answers it.
\<close>

datatype 'p step = ChangeSetting string jsvalue | CreateClient "'p outside" string

fun run_session ::
  "'p modules \<Rightarrow> activation \<Rightarrow> settings \<Rightarrow> 'p step list
     \<Rightarrow> (settings \<times> ('p, 'p StdioKernelTransport) async) list" where
  "run_session md act host [] = []"
| "run_session md act host (ChangeSetting key v # steps) =
     run_session md act (host(key := v)) steps"
| "run_session md act host (CreateClient out notebookPath # steps) =
     (host, clientFactory md act out notebookPath) # run_session md act host steps"

definition session_trace ::
  "'p modules \<Rightarrow> 'p outside \<Rightarrow> settings \<Rightarrow> 'p step list \<Rightarrow> 'p event list" where
  "session_trace md out host steps =
     (case activate md out host of
        (t, act) \<Rightarrow> t @ concat (map (\<lambda>(h, r). fst r) (run_session md act host steps)))"

text \<open>
  The calls through which \<^verbatim>\<open>getDotnetPath\<close> acquires the runtime: the version check
  (the only use of \<^verbatim>\<open>execute\<close> in the file) and the command \<^verbatim>\<open>dotnet.acquire\<close>.
\<close>

fun version_check :: "'p event \<Rightarrow> bool" where
  "version_check (Execute command args) = True"
| "version_check ev = False"

fun acquire_command :: "'p event \<Rightarrow> bool" where
  "acquire_command (ExecuteCommand command args) = (command = ''dotnet.acquire'')"
| "acquire_command ev = False"

text \<open>The constructions of a transport, each of which starts a kernel process.\<close>

fun transport_construction :: "'p event \<Rightarrow> bool" where
  "transport_construction (NewStdioKernelTransport p) = True"
| "transport_construction ev = False"

text \<open>
  In a trace, every \<^verbatim>\<open>setExternalUri\<close> on a transport comes after a
  \<^verbatim>\<open>waitForReady\<close> on the same transport; \<open>waited\<close> lists the transports waited for
  so far.
\<close>

fun tunnel_after_ready :: "'p list \<Rightarrow> 'p event list \<Rightarrow> bool" where
  "tunnel_after_ready waited [] = True"
| "tunnel_after_ready waited (WaitForReady p # t) = tunnel_after_ready (p # waited) t"
| "tunnel_after_ready waited (SetExternalUri p u # t) =
     (p \<in> set waited \<and> tunnel_after_ready waited t)"
| "tunnel_after_ready waited (ev # t) = tunnel_after_ready waited t"

subsection \<open>The port in the tunnelled URI\<close>

text \<open>
  What it means for a string to be the decimal numeral of a number, said without the
  function that prints it: the string is not empty, consists of digits, has no leading
  zero unless it is \<^verbatim>\<open>0\<close> itself, and its value, read digit by digit, is the number.
\<close>

definition digit_value :: "char \<Rightarrow> nat" where
  "digit_value c = of_char c - 48"

fun digits_value :: "nat \<Rightarrow> string \<Rightarrow> nat" where
  "digits_value acc [] = acc"
| "digits_value acc (c # cs) = digits_value (10 * acc + digit_value c) cs"

definition is_decimal_of :: "string \<Rightarrow> nat \<Rightarrow> bool" where
  "is_decimal_of s n =
     (s \<noteq> [] \<and> list_all (\<lambda>c. c \<in> set ''0123456789'') s
      \<and> (hd s = CHR ''0'' \<longrightarrow> s = ''0'') \<and> digits_value 0 s = n)"

text \<open>
  Modelled from the spec: the readiness handshake of \<^verbatim>\<open>StdioKernelTransport\<close>, which is
  not part of the fragment. Section 8 of the specification: when the subprocess writes
  its readiness line with the port \<open>port\<close>, "\<^verbatim>\<open>waitForReady()\<close> resolves and the
  transport's endpoint is" at that port. \<open>announced out p port\<close> says that this is how
  the outside answered for the transport \<open>p\<close>: \<^verbatim>\<open>waitForReady\<close> resolved and
  \<^verbatim>\<open>httpPort\<close> is the number \<open>port\<close>.
\<close>

definition announced :: "'p outside \<Rightarrow> 'p \<Rightarrow> nat \<Rightarrow> bool" where
  "announced out p port =
     (waitForReady_outcome out p = Inr () \<and> httpPort_read out p = JNumber (Finite (of_nat port)))"

subsection \<open>The client mapper\<close>

text \<open>
  Modelled from the spec: the class \<^verbatim>\<open>ClientMapper\<close> (module \<^verbatim>\<open>../clientMapper\<close>) is
  not part of the fragment. The model follows sections 3, 4.4 and 9 of the
  specification: a table from document identities to transports, and a map of the
  creations in flight that guards the invocation of the factory, "with only the resolved
  transport (or failure) stored afterward". Callers are numbered; \<open>observed\<close> records
  what each caller was answered, \<open>launches\<close> the identities the factory was invoked
  for, \<open>disposed\<close> the transports disposed of.
\<close>

record ('k, 't) ClientMapper =
  table :: "'k \<rightharpoonup> 't"
  inflight :: "'k \<rightharpoonup> nat list"
  launches :: "'k list"
  observed :: "nat \<rightharpoonup> error + 't"
  disposed :: "'t list"

text \<open>
  Modelled from the spec: \<^verbatim>\<open>getOrCreateClient\<close> up to its first suspension. It
  "returns the existing transport if present; otherwise invokes the injected factory
  exactly once for that identity even if called concurrently from multiple callers":
  a caller that finds a creation in flight joins it.
\<close>

definition getOrCreateClient ::
  "nat \<Rightarrow> 'k \<Rightarrow> ('k, 't) ClientMapper \<Rightarrow> ('k, 't) ClientMapper" where
  "getOrCreateClient caller d m =
     (case table m d of
        Some t \<Rightarrow> m\<lparr>observed := (observed m)(caller \<mapsto> Inr t)\<rparr>
      | None \<Rightarrow>
          (case inflight m d of
             Some waiting \<Rightarrow> m\<lparr>inflight := (inflight m)(d \<mapsto> waiting @ [caller])\<rparr>
           | None \<Rightarrow> m\<lparr>inflight := (inflight m)(d \<mapsto> [caller]), launches := launches m @ [d]\<rparr>))"

text \<open>
  Modelled from the spec: the factory's promise for \<open>d\<close> settles. The mapper "stores
  the result, and returns it. If factory creation fails, the failure is surfaced to all
  concurrent callers and the key is NOT cached".
\<close>

definition factorySettled ::
  "'k \<Rightarrow> error + 't \<Rightarrow> ('k, 't) ClientMapper \<Rightarrow> ('k, 't) ClientMapper" where
  "factorySettled d r m =
     (case inflight m d of
        None \<Rightarrow> m
      | Some waiting \<Rightarrow>
          m\<lparr>inflight := (inflight m)(d := None),
            observed := (\<lambda>c. if c \<in> set waiting then Some r else observed m c),
            table := (case r of Inl e \<Rightarrow> table m | Inr t \<Rightarrow> (table m)(d \<mapsto> t))\<rparr>)"

text \<open>
  Modelled from the spec: \<^verbatim>\<open>closeClient\<close> "removes and disposes the transport for that
  identity if present; no-op if absent". What it does to a creation in flight is an open
  question of the design notes and is not modelled: the map of creations in flight is
  left as it is.
\<close>

definition closeClient :: "'k \<Rightarrow> ('k, 't) ClientMapper \<Rightarrow> ('k, 't) ClientMapper" where
  "closeClient d m =
     (case table m d of
        None \<Rightarrow> m
      | Some t \<Rightarrow> m\<lparr>table := (table m)(d := None), disposed := disposed m @ [t]\<rparr>)"

text \<open>
  The mapper runs in a single flow of control: what happens to it is a sequence of
  calls and of settled creations, in the order in which they take place.
\<close>

datatype ('k, 't) mapper_event =
    GetOrCreate nat 'k
  | Settled 'k "error + 't"
  | Close 'k

fun mapper_step :: "('k, 't) mapper_event \<Rightarrow> ('k, 't) ClientMapper \<Rightarrow> ('k, 't) ClientMapper" where
  "mapper_step (GetOrCreate caller d) m = getOrCreateClient caller d m"
| "mapper_step (Settled d r) m = factorySettled d r m"
| "mapper_step (Close d) m = closeClient d m"

definition mapper_run :: "('k, 't) mapper_event list \<Rightarrow> ('k, 't) ClientMapper \<Rightarrow> ('k, 't) ClientMapper" where
  "mapper_run evs m = fold mapper_step evs m"

fun event_key :: "('k, 't) mapper_event \<Rightarrow> 'k" where
  "event_key (GetOrCreate caller d) = d"
| "event_key (Settled d r) = d"
| "event_key (Close d) = d"

text \<open>
  \<open>concurrent_calls d callers evs\<close>: in \<open>evs\<close> the callers \<open>callers\<close> call
  \<^verbatim>\<open>getOrCreateClient(d)\<close>, in this order, interleaved with events of other
  documents, and nothing else happens to \<open>d\<close>.
\<close>

fun concurrent_calls :: "'k \<Rightarrow> nat list \<Rightarrow> ('k, 't) mapper_event list \<Rightarrow> bool" where
  "concurrent_calls d [] [] = True"
| "concurrent_calls d (c # cs) [] = False"
| "concurrent_calls d cs (GetOrCreate caller k # evs) =
     (if k = d
      then (case cs of [] \<Rightarrow> False | c # cs' \<Rightarrow> caller = c \<and> concurrent_calls d cs' evs)
      else concurrent_calls d cs evs)"
| "concurrent_calls d cs (ev # evs) = (event_key ev \<noteq> d \<and> concurrent_calls d cs evs)"

text \<open>
  The listener that line 79 registers on \<^verbatim>\<open>onDidCloseNotebookDocument\<close>: the calls of
  \<^verbatim>\<open>closeClient\<close> that the registered listeners make when the host reports that
  \<open>document\<close> was closed, and their effect on the mapper.
\<close>

fun closeClient_calls :: "subscription list \<Rightarrow> NotebookDocument \<Rightarrow> uri list" where
  "closeClient_calls [] document = []"
| "closeClient_calls (OnDidCloseNotebookDocument # ss) document =
     doc_uri document # closeClient_calls ss document"
| "closeClient_calls (s # ss) document = closeClient_calls ss document"

definition didCloseNotebookDocument ::
  "subscription list \<Rightarrow> NotebookDocument \<Rightarrow> (uri, 't) ClientMapper \<Rightarrow> (uri, 't) ClientMapper" where
  "didCloseNotebookDocument ss document m = fold closeClient (closeClient_calls ss document) m"

subsection \<open>A concrete instance\<close>

text \<open>
  An instance of the parameters on which the model can be evaluated: a process start is
  the tuple of what \<^verbatim>\<open>processArguments\<close> was given, the interactive languages are those
  with the prefix \<^verbatim>\<open>dotnet-interactive.\<close>, and every external call succeeds, the
  transport's \<^verbatim>\<open>httpPort\<close> being 8765.
\<close>

type_synonym sample_start = "ArgsTemplate \<times> string \<times> string \<times> string"

definition sample_modules :: "sample_start modules" where
  "sample_modules =
     \<lparr>processArguments = (\<lambda>template notebookPath dotnetPath workingDirectory.
                            (template, notebookPath, dotnetPath, workingDirectory)),
      compareVersions_ge = (\<lambda>v minVersion. Inr (v = ''5.0.100'')),
      KernelId = ''dotnet-interactive'',
      notebookCellLanguages = [''dotnet-interactive.csharp'', ''dotnet-interactive.fsharp''],
      isDotnetInteractiveLanguage = (\<lambda>l. take 19 l = ''dotnet-interactive.''),
      getSimpleLanguage = drop 19,
      getDotNetMetadata = (\<lambda>m. \<lparr>cm_language = (case m of JString l \<Rightarrow> l | _ \<Rightarrow> [])\<rparr>),
      getLanguageInfoMetadata = (\<lambda>m. m),
      getCellLanguage = (\<lambda>cellMetadata info l.
                           if cm_language cellMetadata = [] then l
                           else ''dotnet-interactive.'' @ cm_language cellMetadata),
      withDotNetMetadata = (\<lambda>m cellMetadata. JString (cm_language cellMetadata)),
      toString_other = (\<lambda>v. ''[object Object]'')\<rparr>"

definition sample_outside :: "sample_start outside" where
  "sample_outside =
     \<lparr>execute_outcome = (\<lambda>command args. Inr \<lparr>exec_code = 0, exec_output = ''5.0.100''\<rparr>),
      dotnet_acquire_outcome = (\<lambda>args. Inr (Some \<lparr>ar_dotnetPath = ''/opt/dotnet/dotnet''\<rparr>)),
      interactive_acquire_outcome = (\<lambda>args. Inr (Some \<lparr>lo_workingDirectory = ''/work''\<rparr>)),
      newTransport_outcome = (\<lambda>p. Inr ()),
      waitForReady_outcome = (\<lambda>p. Inr ()),
      httpPort_read = (\<lambda>p. JNumber (Finite 8765)),
      asExternalUri_outcome = (\<lambda>u. Inr (Uri_parse ''https://tunnel.example/'')),
      setExternalUri_outcome = (\<lambda>p u. Inr ())\<rparr>"

definition sample_settings :: settings where
  "sample_settings =
     (\<lambda>key. JUndefined)
       (''kernelTransportArgs'' := JArray [JString ''{dotnet_path}'', JString ''interactive''],
        ''kernelTransportWorkingDirectory'' := JString ''{global_storage_path}'',
        ''minimumDotNetSdkVersion'' := JString ''5.0'')"

definition sample_activation :: activation where
  "sample_activation = snd (activate sample_modules sample_outside sample_settings)"

definition sample_heap :: heap where
  "sample_heap r =
     \<lparr>cell_cellKind = (if r = 0 then Markdown else Code),
      cell_text = (if r = 0 then ''# title'' else ''1 + 1''),
      cell_language = (if r = 0 then ''markdown'' else ''dotnet-interactive.csharp''),
      cell_outputs = [],
      cell_metadata = (if r = 2 then JString ''fsharp'' else JNull)\<rparr>"

definition sample_document :: NotebookDocument where
  "sample_document =
     \<lparr>doc_uri = Uri_file ''/work/a.dib'', doc_cells = [0, 1, 2],
      doc_languages = [], doc_metadata = JNull\<rparr>"

definition empty_mapper :: "(uri, nat) ClientMapper" where
  "empty_mapper =
     \<lparr>table = Map.empty, inflight = Map.empty, launches = [], observed = Map.empty, disposed = []\<rparr>"

section \<open>Properties\<close>

subsection \<open>Auxiliary facts about the factory\<close>

lemma await_Inl [simp]: "await (t, Inl e) f = (t, Inl e)"
  by (simp add: await_def)

lemma await_Inr [simp]: "await (t, Inr x) f = (case f x of (t', r) \<Rightarrow> (t @ t', r))"
  by (simp add: await_def)

lemmas async_defs = call_def resolve_def reject_def field_of_def

text \<open>The factory, one case for each call that can reject.\<close>

lemma clientFactory_cases:
  "clientFactory md act out path =
    (let line = AppendLine (''Creating client for notebook \"'' @ path @ ''\"'') in
     case act_dotnetPromise act of
       Inl e \<Rightarrow> ([line], Inl e)
     | Inr dp \<Rightarrow>
        (let acquire = ExecuteCommand ''dotnet-interactive.acquire'' (JObject [(''dotnetPath'', JString dp)]) in
         case interactive_acquire_outcome out (JObject [(''dotnetPath'', JString dp)]) of
           Inl e \<Rightarrow> ([line, acquire], Inl e)
         | Inr None \<Rightarrow> ([line, acquire], Inl TypeError)
         | Inr (Some lo) \<Rightarrow>
            (let ps = processArguments md
                        \<lparr>tpl_args = config_get (act_config act) ''kernelTransportArgs'',
                         tpl_workingDirectory = config_get (act_config act) ''kernelTransportWorkingDirectory''\<rparr>
                        path dp (lo_workingDirectory lo) in
             case newTransport_outcome out ps of
               Inl e \<Rightarrow> ([line, acquire, NewStdioKernelTransport ps], Inl e)
             | Inr u \<Rightarrow>
                (case waitForReady_outcome out ps of
                   Inl e \<Rightarrow> ([line, acquire, NewStdioKernelTransport ps, WaitForReady ps], Inl e)
                 | Inr ready \<Rightarrow>
                    (let local = Uri_parse (''http://localhost:''
                                   @ template_literal md (httpPort_read out ps)) in
                     case asExternalUri_outcome out local of
                       Inl e \<Rightarrow> ([line, acquire, NewStdioKernelTransport ps, WaitForReady ps,
                                  AsExternalUri local], Inl e)
                     | Inr ext \<Rightarrow>
                        (case setExternalUri_outcome out ps ext of
                           Inl e \<Rightarrow> ([line, acquire, NewStdioKernelTransport ps, WaitForReady ps,
                                      AsExternalUri local, SetExternalUri ps ext], Inl e)
                         | Inr u' \<Rightarrow> ([line, acquire, NewStdioKernelTransport ps, WaitForReady ps,
                                       AsExternalUri local, SetExternalUri ps ext],
                                      Inr \<lparr>tr_processStart = ps, tr_externalUri = Some ext\<rparr>)))))))"
  unfolding clientFactory_def getInteractiveLaunchOptions_def new_StdioKernelTransport_def
    waitForReady_def setExternalUri_def httpPort_def
  by (simp add: async_defs Let_def split: sum.split option.split)

lemma clientFactory_order: "tunnel_after_ready [] (fst (clientFactory md act out path))"
  by (simp add: clientFactory_cases Let_def split: sum.split option.split)

lemma clientFactory_tunnel_ready:
  "SetExternalUri ps u \<in> set (fst (clientFactory md act out path))
    \<Longrightarrow> waitForReady_outcome out ps = Inr ()"
  by (auto simp: clientFactory_cases Let_def split: sum.splits option.splits)

lemma clientFactory_returns:
  assumes "snd (clientFactory md act out path) = Inr t"
  shows "\<exists>dp lo ext.
     act_dotnetPromise act = Inr dp
     \<and> interactive_acquire_outcome out (JObject [(''dotnetPath'', JString dp)]) = Inr (Some lo)
     \<and> tr_processStart t = processArguments md
          \<lparr>tpl_args = config_get (act_config act) ''kernelTransportArgs'',
           tpl_workingDirectory = config_get (act_config act) ''kernelTransportWorkingDirectory''\<rparr>
          path dp (lo_workingDirectory lo)
     \<and> newTransport_outcome out (tr_processStart t) = Inr ()
     \<and> waitForReady_outcome out (tr_processStart t) = Inr ()
     \<and> asExternalUri_outcome out
          (Uri_parse (''http://localhost:''
             @ template_literal md (httpPort_read out (tr_processStart t)))) = Inr ext
     \<and> setExternalUri_outcome out (tr_processStart t) ext = Inr ()
     \<and> tr_externalUri t = Some ext
     \<and> fst (clientFactory md act out path) =
               [AppendLine (''Creating client for notebook \"'' @ path @ ''\"''),
                ExecuteCommand ''dotnet-interactive.acquire'' (JObject [(''dotnetPath'', JString dp)]),
                NewStdioKernelTransport (tr_processStart t),
                WaitForReady (tr_processStart t),
                AsExternalUri (Uri_parse (''http://localhost:''
                  @ template_literal md (httpPort_read out (tr_processStart t)))),
                SetExternalUri (tr_processStart t) ext]"
  using assms
  by (simp add: clientFactory_cases Let_def split: sum.splits option.splits) auto

text \<open>
  One invocation of the factory constructs at most one transport, and exactly one when it
  returns a transport.
\<close>

lemma clientFactory_constructs_at_most_once:
  "length (filter transport_construction (fst (clientFactory md act out path))) \<le> 1"
  by (simp add: clientFactory_cases Let_def split: sum.split option.split)

lemma clientFactory_constructs_once:
  assumes "snd (clientFactory md act out path) = Inr t"
  shows "length (filter transport_construction (fst (clientFactory md act out path))) = 1"
proof -
  from clientFactory_returns [OF assms] obtain dp ext where
    "fst (clientFactory md act out path) =
       [AppendLine (''Creating client for notebook \"'' @ path @ ''\"''),
        ExecuteCommand ''dotnet-interactive.acquire'' (JObject [(''dotnetPath'', JString dp)]),
        NewStdioKernelTransport (tr_processStart t),
        WaitForReady (tr_processStart t),
        AsExternalUri (Uri_parse (''http://localhost:''
          @ template_literal md (httpPort_read out (tr_processStart t)))),
        SetExternalUri (tr_processStart t) ext]"
    by blast
  then show ?thesis by simp
qed

lemma getDotnetPath_cases:
  "getDotnetPath md out host =
    (let minVersion = host ''minimumDotNetSdkVersion'';
         check = Execute ''dotnet'' [''--version''];
         acquire = ExecuteCommand ''dotnet.acquire'' (dotnet_acquire_args minVersion)
     in case execute_outcome out ''dotnet'' [''--version''] of
          Inl e \<Rightarrow> ([check], Inl e)
        | Inr result \<Rightarrow>
           (case (if exec_code result = 0 then compareVersions_ge md (exec_output result) minVersion
                  else Inr False) of
              Inl e \<Rightarrow> ([check], Inl e)
            | Inr upToDate \<Rightarrow>
               if upToDate
               then ([check, AppendLine (''Using dotnet from \"'' @ ''dotnet'' @ ''\"'')], Inr ''dotnet'')
               else (case dotnet_acquire_outcome out (dotnet_acquire_args minVersion) of
                       Inl e \<Rightarrow> ([check, acquire], Inl e)
                     | Inr None \<Rightarrow> ([check, acquire], Inl TypeError)
                     | Inr (Some r) \<Rightarrow>
                         ([check, acquire,
                           AppendLine (''Using dotnet from \"'' @ ar_dotnetPath r @ ''\"'')],
                          Inr (ar_dotnetPath r)))))"
  unfolding getDotnetPath_def isDotnetUpToDate_def
  by (simp add: async_defs Let_def getConfiguration_def config_get_def
      split: sum.split option.split)

lemma sample_promise:
  "getDotnetPath sample_modules sample_outside sample_settings =
     ([Execute ''dotnet'' [''--version''], AppendLine ''Using dotnet from \"dotnet\"''], Inr ''dotnet'')"
  by (simp add: getDotnetPath_cases sample_modules_def sample_outside_def
      sample_settings_def Let_def)

lemma sample_activation_promise: "act_dotnetPromise sample_activation = Inr ''dotnet''"
  by (simp add: sample_activation_def activate_def sample_promise Let_def)

lemma sample_activation_config: "act_config sample_activation = getConfiguration sample_settings"
  by (simp add: sample_activation_def activate_def Let_def)

lemma sample_activate:
  "activate sample_modules sample_outside sample_settings =
     ([RegisterAcquisitionCommands, CreateOutputChannel ''.NET Interactive : diagnostics'',
       Execute ''dotnet'' [''--version''], RegisterKernelCommands, RegisterFileCommands,
       AppendLine ''Using dotnet from \"dotnet\"''],
      sample_activation)"
  by (simp add: sample_activation_def prod_eq_iff) (simp add: activate_def Let_def sample_promise)

lemma decimal_8765: "decimal 8765 = ''8765''"
  by (simp add: decimal.simps digit_char_def)

lemma sample_port_text: "template_literal sample_modules (httpPort_read sample_outside p) = ''8765''"
  by (simp add: template_literal_def sample_outside_def decimal_8765)

lemma sample_outcomes:
  "interactive_acquire_outcome sample_outside a = Inr (Some \<lparr>lo_workingDirectory = ''/work''\<rparr>)"
  "newTransport_outcome sample_outside p = Inr ()"
  "waitForReady_outcome sample_outside p = Inr ()"
  "asExternalUri_outcome sample_outside u = Inr (Uri_parse ''https://tunnel.example/'')"
  "setExternalUri_outcome sample_outside p u = Inr ()"
  by (simp_all add: sample_outside_def)

lemma sample_processArguments:
  "processArguments sample_modules template notebookPath dotnetPath workingDirectory =
     (template, notebookPath, dotnetPath, workingDirectory)"
  by (simp add: sample_modules_def)

lemma sample_creation:
  "clientFactory sample_modules sample_activation sample_outside path =
     ([AppendLine (''Creating client for notebook \"'' @ path @ ''\"''),
       ExecuteCommand ''dotnet-interactive.acquire'' (JObject [(''dotnetPath'', JString ''dotnet'')]),
       NewStdioKernelTransport
         (\<lparr>tpl_args = sample_settings ''kernelTransportArgs'',
           tpl_workingDirectory = sample_settings ''kernelTransportWorkingDirectory''\<rparr>,
          path, ''dotnet'', ''/work''),
       WaitForReady
         (\<lparr>tpl_args = sample_settings ''kernelTransportArgs'',
           tpl_workingDirectory = sample_settings ''kernelTransportWorkingDirectory''\<rparr>,
          path, ''dotnet'', ''/work''),
       AsExternalUri (Uri_parse ''http://localhost:8765''),
       SetExternalUri
         (\<lparr>tpl_args = sample_settings ''kernelTransportArgs'',
           tpl_workingDirectory = sample_settings ''kernelTransportWorkingDirectory''\<rparr>,
          path, ''dotnet'', ''/work'')
         (Uri_parse ''https://tunnel.example/'')],
      Inr \<lparr>tr_processStart =
             (\<lparr>tpl_args = sample_settings ''kernelTransportArgs'',
               tpl_workingDirectory = sample_settings ''kernelTransportWorkingDirectory''\<rparr>,
              path, ''dotnet'', ''/work''),
           tr_externalUri = Some (Uri_parse ''https://tunnel.example/'')\<rparr>)"
  by (simp add: clientFactory_cases sample_activation_promise sample_activation_config
      sample_port_text sample_outcomes sample_processArguments getConfiguration_def
      config_get_def Let_def)

lemma sample_ready: "waitForReady_outcome sample_outside p = Inr ()"
  by (simp add: sample_outside_def)

lemma sample_announced: "announced sample_outside p 8765"
  by (simp add: announced_def sample_outside_def)

subsection \<open>Auxiliary facts about sessions\<close>

lemma clientFactory_no_acquisition:
  "filter version_check (fst (clientFactory md act out path)) = []
   \<and> filter acquire_command (fst (clientFactory md act out path)) = []"
  by (simp add: clientFactory_cases Let_def split: sum.split option.split)

lemma run_session_no_acquisition:
  "filter version_check (concat (map (\<lambda>(h, r). fst r) (run_session md act host steps))) = []
   \<and> filter acquire_command (concat (map (\<lambda>(h, r). fst r) (run_session md act host steps))) = []"
proof (induction steps arbitrary: host)
  case Nil
  show ?case by simp
next
  case (Cons step steps)
  show ?case
  proof (cases step)
    case (ChangeSetting key v)
    with Cons show ?thesis by simp
  next
    case (CreateClient out path)
    with Cons show ?thesis by (simp add: clientFactory_no_acquisition)
  qed
qed

lemma getDotnetPath_acquisition:
  "length (filter version_check (fst (getDotnetPath md out host))) = 1
   \<and> length (filter acquire_command (fst (getDotnetPath md out host))) \<le> 1"
  by (simp add: getDotnetPath_cases Let_def split: sum.split option.split)

lemma filter_take_drop:
  "filter P (take n xs) @ filter P (drop n xs) = filter P xs"
  by (simp add: filter_append [symmetric])

lemma session_acquisition:
  "filter version_check (session_trace md out host steps) =
     filter version_check (fst (getDotnetPath md out host))
   \<and> filter acquire_command (session_trace md out host steps) =
     filter acquire_command (fst (getDotnetPath md out host))"
  by (simp add: session_trace_def activate_def Let_def run_session_no_acquisition filter_take_drop)

lemma run_session_same_path:
  assumes "(h, r) \<in> set (run_session md act host steps)" and "snd r = Inr t"
  shows "\<exists>dp path workingDirectory.
           act_dotnetPromise act = Inr dp
           \<and> tr_processStart t = processArguments md
                \<lparr>tpl_args = config_get (act_config act) ''kernelTransportArgs'',
                 tpl_workingDirectory = config_get (act_config act) ''kernelTransportWorkingDirectory''\<rparr>
                path dp workingDirectory"
  using assms
proof (induction steps arbitrary: host)
  case Nil
  then show ?case by simp
next
  case (Cons step steps)
  show ?case
  proof (cases step)
    case (ChangeSetting key v)
    with Cons show ?thesis by simp
  next
    case (CreateClient out path)
    show ?thesis
    proof (cases "(h, r) = (host, clientFactory md act out path)")
      case True
      with Cons.prems(2) have "snd (clientFactory md act out path) = Inr t" by simp
      from clientFactory_returns [OF this] show ?thesis by blast
    next
      case False
      with Cons.prems CreateClient have "(h, r) \<in> set (run_session md act host steps)" by auto
      from Cons.IH [OF this Cons.prems(2)] show ?thesis .
    qed
  qed
qed

text \<open>
  Whatever the host's settings are when a client is created, its process is started from
  the values the settings had at activation.
\<close>

lemma creations_use_activation_settings:
  assumes "(h, r) \<in> set (run_session md (snd (activate md out host)) host steps)"
    and "snd r = Inr t"
  shows "\<exists>path dp workingDirectory.
           tr_processStart t = processArguments md
             \<lparr>tpl_args = host ''kernelTransportArgs'',
              tpl_workingDirectory = host ''kernelTransportWorkingDirectory''\<rparr>
             path dp workingDirectory"
proof -
  have "act_config (snd (activate md out host)) = getConfiguration host"
    by (simp add: activate_def Let_def)
  with run_session_same_path [OF assms] show ?thesis
    by (auto simp: config_get_def getConfiguration_def)
qed

subsection \<open>The settings the factory reads\<close>

text \<open>
  C1. The factory reads \<^verbatim>\<open>kernelTransportArgs\<close> and
  \<^verbatim>\<open>kernelTransportWorkingDirectory\<close> at each creation, but from the configuration
  item obtained once at activation and not from "a fresh config item" as its comment
  says. Here a client is created, the setting \<^verbatim>\<open>kernelTransportArgs\<close> is changed, and a
  second client is created: each creation is shown with the value the host holds at that
  moment and with the arguments the process was started from. The second creation still
  uses the value held at activation.
\<close>

theorem second_creation_uses_stale_settings:
  "map (\<lambda>(h, r). (h ''kernelTransportArgs'',
                   map_sum id (\<lambda>t. tpl_args (fst (tr_processStart t))) (snd r)))
     (run_session sample_modules sample_activation sample_settings
        [CreateClient sample_outside ''/work/a.dib'',
         ChangeSetting ''kernelTransportArgs'' (JArray [JString ''--verbose'']),
         CreateClient sample_outside ''/work/b.dib''])
   = [(JArray [JString ''{dotnet_path}'', JString ''interactive''],
       Inr (JArray [JString ''{dotnet_path}'', JString ''interactive''])),
      (JArray [JString ''--verbose''],
       Inr (JArray [JString ''{dotnet_path}'', JString ''interactive'']))]"
  by (simp add: sample_creation) (simp add: sample_settings_def)

subsection \<open>The factory waits for the kernel, then tunnels\<close>

text \<open>
  C2. In every run of the factory, \<^verbatim>\<open>setExternalUri\<close> is called on a transport only
  after \<^verbatim>\<open>waitForReady\<close> was called on it and has resolved. Whenever the factory returns a transport
  \<open>t\<close> to the mapper, its calls after the log line and the acquisition command are
  exactly: the construction of \<open>t\<close>, \<^verbatim>\<open>waitForReady\<close> on \<open>t\<close>, \<^verbatim>\<open>asExternalUri\<close>,
  \<^verbatim>\<open>setExternalUri\<close> on \<open>t\<close>; both \<^verbatim>\<open>waitForReady\<close> and \<^verbatim>\<open>setExternalUri\<close> have
  completed without error, and \<open>t\<close> carries the external URI.
\<close>

theorem factory_waits_then_tunnels:
  "tunnel_after_ready [] (fst (clientFactory md act out path))
   \<and> (\<forall>t. snd (clientFactory md act out path) = Inr t \<longrightarrow>
        (\<exists>ext.
           drop 2 (fst (clientFactory md act out path)) =
             [NewStdioKernelTransport (tr_processStart t),
              WaitForReady (tr_processStart t),
              AsExternalUri (Uri_parse (''http://localhost:''
                @ template_literal md (httpPort_read out (tr_processStart t)))),
              SetExternalUri (tr_processStart t) ext]
           \<and> waitForReady_outcome out (tr_processStart t) = Inr ()
           \<and> setExternalUri_outcome out (tr_processStart t) ext = Inr ()
           \<and> tr_externalUri t = Some ext))
   \<and> (\<forall>ps u. SetExternalUri ps u \<in> set (fst (clientFactory md act out path)) \<longrightarrow>
        waitForReady_outcome out ps = Inr ())"
proof (intro conjI allI impI)
  show "tunnel_after_ready [] (fst (clientFactory md act out path))"
    by (rule clientFactory_order)
next
  fix ps u
  assume "SetExternalUri ps u \<in> set (fst (clientFactory md act out path))"
  then show "waitForReady_outcome out ps = Inr ()"
    by (rule clientFactory_tunnel_ready)
next
  fix t
  assume "snd (clientFactory md act out path) = Inr t"
  from clientFactory_returns [OF this]
  obtain dp ext where
    "waitForReady_outcome out (tr_processStart t) = Inr ()"
    "setExternalUri_outcome out (tr_processStart t) ext = Inr ()"
    "tr_externalUri t = Some ext"
    "fst (clientFactory md act out path) =
               [AppendLine (''Creating client for notebook \"'' @ path @ ''\"''),
                ExecuteCommand ''dotnet-interactive.acquire'' (JObject [(''dotnetPath'', JString dp)]),
                NewStdioKernelTransport (tr_processStart t),
                WaitForReady (tr_processStart t),
                AsExternalUri (Uri_parse (''http://localhost:''
                  @ template_literal md (httpPort_read out (tr_processStart t)))),
                SetExternalUri (tr_processStart t) ext]"
    by blast
  then show "\<exists>ext.
           drop 2 (fst (clientFactory md act out path)) =
             [NewStdioKernelTransport (tr_processStart t),
              WaitForReady (tr_processStart t),
              AsExternalUri (Uri_parse (''http://localhost:''
                @ template_literal md (httpPort_read out (tr_processStart t)))),
              SetExternalUri (tr_processStart t) ext]
           \<and> waitForReady_outcome out (tr_processStart t) = Inr ()
           \<and> setExternalUri_outcome out (tr_processStart t) ext = Inr ()
           \<and> tr_externalUri t = Some ext"
    by simp
qed

theorem factory_waits_then_tunnels_witness:
  "tunnel_after_ready []
     (fst (clientFactory sample_modules sample_activation sample_outside ''/work/a.dib''))
   \<and> (\<exists>t. snd (clientFactory sample_modules sample_activation sample_outside ''/work/a.dib'') = Inr t
        \<and> tr_externalUri t = Some (Uri_parse ''https://tunnel.example/'')
        \<and> drop 2 (fst (clientFactory sample_modules sample_activation sample_outside ''/work/a.dib'')) =
             [NewStdioKernelTransport (tr_processStart t),
              WaitForReady (tr_processStart t),
              AsExternalUri (Uri_parse ''http://localhost:8765''),
              SetExternalUri (tr_processStart t) (Uri_parse ''https://tunnel.example/'')])"
  using factory_waits_then_tunnels [of sample_modules sample_activation sample_outside
      "''/work/a.dib''"]
  by (simp add: sample_creation)

subsection \<open>The tunnelled endpoint comes from the negotiated port\<close>

text \<open>The digits that \<open>decimal\<close> prints are the decimal numeral of the number, and no
  other string is.\<close>

lemma digits_value_snoc: "digits_value acc (s @ [c]) = 10 * digits_value acc s + digit_value c"
  by (induction s arbitrary: acc) simp_all

lemma digit_char_digit:
  assumes "d < 10"
  shows "digit_char d \<in> set ''0123456789''" and "digit_value (digit_char d) = d"
    and "(digit_char d = CHR ''0'') = (d = 0)"
proof -
  from assms have "d \<in> {0, 1, 2, 3, 4, 5, 6, 7, 8, 9}" by auto
  then show "digit_char d \<in> set ''0123456789''" and "digit_value (digit_char d) = d"
    and "(digit_char d = CHR ''0'') = (d = 0)"
    by (auto simp: digit_char_def digit_value_def)
qed

lemma digit_value_digit:
  assumes "c \<in> set ''0123456789''"
  shows "digit_value c < 10" and "digit_char (digit_value c) = c"
  using assms by (auto simp: digit_char_def digit_value_def)

lemma decimal_not_empty: "decimal n \<noteq> []"
  by (subst decimal.simps) simp

lemma decimal_digits: "list_all (\<lambda>c. c \<in> set ''0123456789'') (decimal n)"
proof (induction n rule: decimal.induct)
  case (1 n)
  show ?case
  proof (cases "n < 10")
    case True
    then show ?thesis
      using digit_char_digit(1) [of n] by (subst decimal.simps) simp
  next
    case False
    with "1" have "list_all (\<lambda>c. c \<in> set ''0123456789'') (decimal (n div 10))" by simp
    moreover have "digit_char (n mod 10) \<in> set ''0123456789''"
      by (rule digit_char_digit(1)) simp
    ultimately show ?thesis
      using False by (subst decimal.simps) simp
  qed
qed

lemma decimal_value: "digits_value 0 (decimal n) = n"
proof (induction n rule: decimal.induct)
  case (1 n)
  show ?case
  proof (cases "n < 10")
    case True
    then show ?thesis
      using digit_char_digit(2) [of n] by (subst decimal.simps) simp
  next
    case False
    with "1" have "digits_value 0 (decimal (n div 10)) = n div 10" by simp
    moreover have "digit_value (digit_char (n mod 10)) = n mod 10"
      by (rule digit_char_digit(2)) simp
    ultimately show ?thesis
      using False by (subst decimal.simps) (simp add: digits_value_snoc)
  qed
qed

lemma decimal_leading: "(hd (decimal n) = CHR ''0'') = (n = 0)"
proof (induction n rule: decimal.induct)
  case (1 n)
  show ?case
  proof (cases "n < 10")
    case True
    then show ?thesis
      using digit_char_digit(3) [of n] by (subst decimal.simps) simp
  next
    case False
    with "1" have "(hd (decimal (n div 10)) = CHR ''0'') = (n div 10 = 0)" by simp
    with False show ?thesis
      by (subst decimal.simps) (simp add: decimal_not_empty)
  qed
qed

lemma decimal_zero: "decimal 0 = ''0''"
  by (simp add: decimal.simps digit_char_def)

lemma decimal_is_decimal: "is_decimal_of (decimal n) n"
  unfolding is_decimal_of_def
proof (intro conjI impI)
  show "decimal n \<noteq> []" by (rule decimal_not_empty)
  show "list_all (\<lambda>c. c \<in> set ''0123456789'') (decimal n)" by (rule decimal_digits)
  show "digits_value 0 (decimal n) = n" by (rule decimal_value)
  assume "hd (decimal n) = CHR ''0''"
  then have "n = 0" by (simp only: decimal_leading)
  then show "decimal n = ''0''" by (simp only: decimal_zero)
qed

lemma zero_value_zeros:
  "list_all (\<lambda>c. c \<in> set ''0123456789'') s \<Longrightarrow> digits_value 0 s = 0 \<Longrightarrow> s \<noteq> []
    \<Longrightarrow> hd s = CHR ''0''"
proof (induction s rule: rev_induct)
  case Nil
  then show ?case by simp
next
  case (snoc c s)
  from snoc.prems(2) have zero: "digits_value 0 s = 0" and last: "digit_value c = 0"
    by (simp_all add: digits_value_snoc)
  show ?case
  proof (cases "s = []")
    case True
    from snoc.prems(1) have "c \<in> set ''0123456789''" by simp
    from digit_value_digit(2) [OF this] last have "c = CHR ''0''"
      by (simp add: digit_char_def)
    with True show ?thesis by simp
  next
    case False
    with snoc.IH snoc.prems(1) zero have "hd s = CHR ''0''" by simp
    with False show ?thesis by simp
  qed
qed

lemma is_decimal_unique: "is_decimal_of s n \<Longrightarrow> s = decimal n"
proof (induction n arbitrary: s rule: decimal.induct)
  case (1 n)
  from "1.prems" have ne: "s \<noteq> []" and digits: "list_all (\<lambda>c. c \<in> set ''0123456789'') s"
    and lead: "hd s = CHR ''0'' \<longrightarrow> s = ''0''" and total: "digits_value 0 s = n"
    by (simp_all add: is_decimal_of_def)
  from ne obtain b c where s: "s = b @ [c]" by (cases s rule: rev_cases) auto
  from digits s have c: "c \<in> set ''0123456789''" and b: "list_all (\<lambda>c. c \<in> set ''0123456789'') b"
    by simp_all
  from total s have n: "n = 10 * digits_value 0 b + digit_value c"
    by (simp add: digits_value_snoc)
  note dc = digit_value_digit [OF c]
  from n dc(1) have div: "n div 10 = digits_value 0 b" and mod: "n mod 10 = digit_value c"
    by simp_all
  show ?case
  proof (cases "n < 10")
    case True
    with div have zero: "digits_value 0 b = 0" by simp
    have "b = []"
    proof (rule ccontr)
      assume nb: "b \<noteq> []"
      from zero_value_zeros [OF b zero nb] nb s have "hd s = CHR ''0''" by simp
      with lead have "s = ''0''" by simp
      with s nb show False by simp
    qed
    with s n dc(2) True show ?thesis
      by (subst decimal.simps) simp
  next
    case False
    with div have pos: "digits_value 0 b \<noteq> 0" by simp
    then have nb: "b \<noteq> []" by auto
    have "hd b \<noteq> CHR ''0''"
    proof
      assume "hd b = CHR ''0''"
      with nb s have "hd s = CHR ''0''" by simp
      with lead have "s = ''0''" by simp
      with s nb show False by simp
    qed
    with nb b div have "is_decimal_of b (n div 10)"
      by (simp add: is_decimal_of_def)
    with "1.IH" False have "b = decimal (n div 10)" by simp
    with s mod dc(2) False show ?thesis
      by (subst decimal.simps) simp
  qed
qed

lemma template_literal_port:
  "port < 2 ^ 53 \<Longrightarrow> template_literal md (JNumber (Finite (of_nat port))) = decimal port"
  by (simp add: template_literal_def)

text \<open>Once \<^verbatim>\<open>waitForReady\<close> has resolved, one URI is passed to \<^verbatim>\<open>asExternalUri\<close>.\<close>

lemma clientFactory_uri:
  assumes "WaitForReady ps \<in> set (fst (clientFactory md act out path))"
    and "waitForReady_outcome out ps = Inr ()"
  shows "(AsExternalUri u \<in> set (fst (clientFactory md act out path))) =
           (u = Uri_parse (''http://localhost:'' @ template_literal md (httpPort_read out ps)))"
  using assms
  by (auto simp: clientFactory_cases Let_def split: sum.splits option.splits)

lemma clientFactory_uri_only:
  assumes "AsExternalUri u \<in> set (fst (clientFactory md act out path))"
  shows "\<exists>ps'. WaitForReady ps' \<in> set (fst (clientFactory md act out path))
           \<and> waitForReady_outcome out ps' = Inr ()
           \<and> u = Uri_parse (''http://localhost:'' @ template_literal md (httpPort_read out ps'))"
  using assms
  by (auto simp: clientFactory_cases Let_def split: sum.splits option.splits)

text \<open>
  C3. Whenever \<^verbatim>\<open>waitForReady\<close> resolves in the factory, the factory passes to
  \<^verbatim>\<open>asExternalUri\<close> the URI parsed from the string \<^verbatim>\<open>http://localhost:\<close> followed by
  \<^verbatim>\<open>transport.httpPort\<close> as the template literal prints it, and it passes no other URI to
  \<^verbatim>\<open>asExternalUri\<close>. When the transport has announced the port \<open>port\<close> (below \<open>2 ^ 53\<close>,
  as every port number is), that string is \<^verbatim>\<open>http://localhost:\<close> followed by the decimal
  numeral of \<open>port\<close>, and by no other string; when \<^verbatim>\<open>httpPort\<close> is undefined it is
  \<^verbatim>\<open>http://localhost:undefined\<close>.
\<close>

theorem tunnel_uri_from_port:
  "(WaitForReady ps \<in> set (fst (clientFactory md act out path))
      \<and> waitForReady_outcome out ps = Inr ()
    \<longrightarrow> AsExternalUri (Uri_parse (''http://localhost:'' @ template_literal md (httpPort_read out ps)))
          \<in> set (fst (clientFactory md act out path)))
   \<and> (AsExternalUri u \<in> set (fst (clientFactory md act out path))
    \<longrightarrow> (\<exists>ps'. WaitForReady ps' \<in> set (fst (clientFactory md act out path))
           \<and> waitForReady_outcome out ps' = Inr ()
           \<and> u = Uri_parse (''http://localhost:'' @ template_literal md (httpPort_read out ps'))))
   \<and> (WaitForReady ps \<in> set (fst (clientFactory md act out path))
      \<and> announced out ps port \<and> port < 2 ^ 53
    \<longrightarrow> (\<forall>s. (AsExternalUri (Uri_parse (''http://localhost:'' @ s))
                 \<in> set (fst (clientFactory md act out path)))
              = is_decimal_of s port))
   \<and> (WaitForReady ps \<in> set (fst (clientFactory md act out path))
      \<and> waitForReady_outcome out ps = Inr () \<and> httpPort_read out ps = JUndefined
    \<longrightarrow> AsExternalUri (Uri_parse ''http://localhost:undefined'')
          \<in> set (fst (clientFactory md act out path)))"
proof (intro conjI impI)
  assume "WaitForReady ps \<in> set (fst (clientFactory md act out path))
      \<and> waitForReady_outcome out ps = Inr ()"
  then have w: "WaitForReady ps \<in> set (fst (clientFactory md act out path))"
    and r: "waitForReady_outcome out ps = Inr ()"
    by simp_all
  from clientFactory_uri [OF w r]
  show "AsExternalUri (Uri_parse (''http://localhost:'' @ template_literal md (httpPort_read out ps)))
          \<in> set (fst (clientFactory md act out path))"
    by simp
next
  assume "AsExternalUri u \<in> set (fst (clientFactory md act out path))"
  then show "\<exists>ps'. WaitForReady ps' \<in> set (fst (clientFactory md act out path))
           \<and> waitForReady_outcome out ps' = Inr ()
           \<and> u = Uri_parse (''http://localhost:'' @ template_literal md (httpPort_read out ps'))"
    by (rule clientFactory_uri_only)
next
  assume a: "WaitForReady ps \<in> set (fst (clientFactory md act out path))
      \<and> announced out ps port \<and> port < 2 ^ 53"
  then have ready: "waitForReady_outcome out ps = Inr ()"
    and field: "httpPort_read out ps = JNumber (Finite (of_nat port))"
    by (simp_all add: announced_def)
  from a have w: "WaitForReady ps \<in> set (fst (clientFactory md act out path))"
    by simp
  from a have printed: "template_literal md (httpPort_read out ps) = decimal port"
    by (simp add: field template_literal_port)
  show "\<forall>s. (AsExternalUri (Uri_parse (''http://localhost:'' @ s))
                 \<in> set (fst (clientFactory md act out path)))
              = is_decimal_of s port"
  proof
    fix s
    from clientFactory_uri [OF w ready, of "Uri_parse (''http://localhost:'' @ s)"]
    have "(AsExternalUri (Uri_parse (''http://localhost:'' @ s))
                 \<in> set (fst (clientFactory md act out path))) = (s = decimal port)"
      by (simp add: printed)
    also have "(s = decimal port) = is_decimal_of s port"
      using decimal_is_decimal [of port] is_decimal_unique [of s port] by blast
    finally show "(AsExternalUri (Uri_parse (''http://localhost:'' @ s))
                 \<in> set (fst (clientFactory md act out path))) = is_decimal_of s port" .
  qed
next
  assume "WaitForReady ps \<in> set (fst (clientFactory md act out path))
      \<and> waitForReady_outcome out ps = Inr () \<and> httpPort_read out ps = JUndefined"
  then have w: "WaitForReady ps \<in> set (fst (clientFactory md act out path))"
    and r: "waitForReady_outcome out ps = Inr ()"
    and field: "httpPort_read out ps = JUndefined"
    by simp_all
  from clientFactory_uri [OF w r, of "Uri_parse ''http://localhost:undefined''"]
  show "AsExternalUri (Uri_parse ''http://localhost:undefined'')
          \<in> set (fst (clientFactory md act out path))"
    by (simp add: field template_literal_def)
qed

theorem tunnel_uri_from_port_witness:
  "WaitForReady (\<lparr>tpl_args = sample_settings ''kernelTransportArgs'',
           tpl_workingDirectory = sample_settings ''kernelTransportWorkingDirectory''\<rparr>,
          ''/work/a.dib'', ''dotnet'', ''/work'')
     \<in> set (fst (clientFactory sample_modules sample_activation sample_outside ''/work/a.dib''))
   \<and> announced sample_outside
        (\<lparr>tpl_args = sample_settings ''kernelTransportArgs'',
           tpl_workingDirectory = sample_settings ''kernelTransportWorkingDirectory''\<rparr>,
          ''/work/a.dib'', ''dotnet'', ''/work'') 8765
   \<and> (8765 :: nat) < 2 ^ 53
   \<and> is_decimal_of ''8765'' 8765
   \<and> AsExternalUri (Uri_parse ''http://localhost:8765'')
     \<in> set (fst (clientFactory sample_modules sample_activation sample_outside ''/work/a.dib''))
   \<and> AsExternalUri (Uri_parse ''http://localhost:8766'')
     \<notin> set (fst (clientFactory sample_modules sample_activation sample_outside ''/work/a.dib''))"
proof -
  let ?ps = "(\<lparr>tpl_args = sample_settings ''kernelTransportArgs'',
           tpl_workingDirectory = sample_settings ''kernelTransportWorkingDirectory''\<rparr>,
          ''/work/a.dib'', ''dotnet'', ''/work'')"
  let ?trace = "fst (clientFactory sample_modules sample_activation sample_outside ''/work/a.dib'')"
  have waited: "WaitForReady ?ps \<in> set ?trace"
    by (simp add: sample_creation)
  have port: "announced sample_outside ?ps 8765"
    by (rule sample_announced)
  have bound: "(8765 :: nat) < 2 ^ 53"
    by simp
  have numeral: "is_decimal_of ''8765'' 8765"
    by (simp add: is_decimal_of_def digit_value_def)
  have other: "\<not> is_decimal_of ''8766'' 8765"
    by (simp add: is_decimal_of_def digit_value_def)
  from waited port bound
    tunnel_uri_from_port [where md = sample_modules and act = sample_activation
      and out = sample_outside and path = "''/work/a.dib''" and port = 8765 and ps = ?ps
      and u = "Uri_parse ''http://localhost:8765''"]
  have "\<forall>s. (AsExternalUri (Uri_parse (''http://localhost:'' @ s)) \<in> set ?trace)
            = is_decimal_of s 8765"
    by blast
  then have "(AsExternalUri (Uri_parse (''http://localhost:'' @ ''8765'')) \<in> set ?trace)
              = is_decimal_of ''8765'' 8765"
    and "(AsExternalUri (Uri_parse (''http://localhost:'' @ ''8766'')) \<in> set ?trace)
              = is_decimal_of ''8766'' 8765"
    by blast+
  with numeral other have "AsExternalUri (Uri_parse ''http://localhost:8765'') \<in> set ?trace"
    and "AsExternalUri (Uri_parse ''http://localhost:8766'') \<notin> set ?trace"
    by simp_all
  with waited port bound numeral show ?thesis by blast
qed

subsection \<open>Synchronising the languages of a document\<close>

lemma collect_cellData_map:
  "collect_cellData md h info cs acc =
     acc @ map (\<lambda>c. (cell_contents (h c))
                  \<lparr>language := getCellLanguage md (getDotNetMetadata md (cell_metadata (h c))) info
                                (cell_language (h c))\<rparr>) cs"
  by (induction cs arbitrary: acc) (simp_all add: Let_def cell_contents_def)

text \<open>
  C4. When the kernel of the event has the id \<^verbatim>\<open>KernelId\<close>, \<^verbatim>\<open>updateDocumentLanguages\<close>
  applies one edit, which replaces the cells from index 0 to the number of cells by cells
  that have the kind, the source text, the outputs and the metadata of the original
  cells and differ from them only in the language, which is
  \<^verbatim>\<open>getCellLanguage(cellMetadata, documentLanguageInfo, cell.language)\<close>. When the event
  has no kernel, or a kernel with another id, no edit is applied and the document is
  as it was.
\<close>

theorem updateDocumentLanguages_frame:
  "(map_option kernel_id k = Some (KernelId md) \<longrightarrow>
      updateDocumentLanguages md h document k =
        (document\<lparr>doc_languages := notebookCellLanguages md\<rparr>,
         Some [ReplaceNotebookCells (doc_uri document) 0 (length (doc_cells document))
                 (map (\<lambda>c. (cell_contents (h c))
                         \<lparr>language := getCellLanguage md (getDotNetMetadata md (cell_metadata (h c)))
                                       (getLanguageInfoMetadata md (doc_metadata document))
                                       (cell_language (h c))\<rparr>)
                    (doc_cells document))])
      \<and> contents_after h document (snd (updateDocumentLanguages md h document k)) =
          map (\<lambda>c. (cell_contents (h c))
                  \<lparr>language := getCellLanguage md (getDotNetMetadata md (cell_metadata (h c)))
                                (getLanguageInfoMetadata md (doc_metadata document))
                                (cell_language (h c))\<rparr>)
            (doc_cells document))
   \<and> (map_option kernel_id k \<noteq> Some (KernelId md) \<longrightarrow>
        updateDocumentLanguages md h document k = (document, None)
        \<and> contents_after h document (snd (updateDocumentLanguages md h document k)) =
            map (\<lambda>c. cell_contents (h c)) (doc_cells document))"
  by (simp add: updateDocumentLanguages_def Let_def collect_cellData_map contents_after_def)

theorem updateDocumentLanguages_frame_witness:
  "map_option kernel_id (Some \<lparr>kernel_id = ''dotnet-interactive''\<rparr>) = Some (KernelId sample_modules)
   \<and> map language (contents_after sample_heap sample_document
        (snd (updateDocumentLanguages sample_modules sample_heap sample_document
               (Some \<lparr>kernel_id = ''dotnet-interactive''\<rparr>))))
      = [''markdown'', ''dotnet-interactive.csharp'', ''dotnet-interactive.fsharp'']
   \<and> map_option kernel_id (Some \<lparr>kernel_id = ''other''\<rparr>) \<noteq> Some (KernelId sample_modules)
   \<and> updateDocumentLanguages sample_modules sample_heap sample_document
        (Some \<lparr>kernel_id = ''other''\<rparr>) = (sample_document, None)
   \<and> updateDocumentLanguages sample_modules sample_heap sample_document None
        = (sample_document, None)"
proof -
  have same: "map_option kernel_id (Some \<lparr>kernel_id = ''dotnet-interactive''\<rparr>)
                = Some (KernelId sample_modules)"
    by (simp add: sample_modules_def)
  have other: "map_option kernel_id (Some \<lparr>kernel_id = ''other''\<rparr>) \<noteq> Some (KernelId sample_modules)"
    by (simp add: sample_modules_def)
  have none: "map_option kernel_id None \<noteq> Some (KernelId sample_modules)"
    by simp
  from same updateDocumentLanguages_frame [of "Some \<lparr>kernel_id = ''dotnet-interactive''\<rparr>"
      sample_modules sample_heap sample_document]
  have "contents_after sample_heap sample_document
          (snd (updateDocumentLanguages sample_modules sample_heap sample_document
                 (Some \<lparr>kernel_id = ''dotnet-interactive''\<rparr>))) =
        map (\<lambda>c. (cell_contents (sample_heap c))
                  \<lparr>language := getCellLanguage sample_modules
                     (getDotNetMetadata sample_modules (cell_metadata (sample_heap c)))
                     (getLanguageInfoMetadata sample_modules (doc_metadata sample_document))
                     (cell_language (sample_heap c))\<rparr>)
            (doc_cells sample_document)"
    by blast
  then have languages: "map language (contents_after sample_heap sample_document
        (snd (updateDocumentLanguages sample_modules sample_heap sample_document
               (Some \<lparr>kernel_id = ''dotnet-interactive''\<rparr>))))
      = [''markdown'', ''dotnet-interactive.csharp'', ''dotnet-interactive.fsharp'']"
    by (simp add: sample_modules_def sample_document_def sample_heap_def cell_contents_def)
  from other updateDocumentLanguages_frame [of "Some \<lparr>kernel_id = ''other''\<rparr>"
      sample_modules sample_heap sample_document]
  have unchanged: "updateDocumentLanguages sample_modules sample_heap sample_document
        (Some \<lparr>kernel_id = ''other''\<rparr>) = (sample_document, None)"
    by blast
  from none updateDocumentLanguages_frame [of None sample_modules sample_heap sample_document]
  have unchanged': "updateDocumentLanguages sample_modules sample_heap sample_document None
        = (sample_document, None)"
    by blast
  from same languages other unchanged unchanged' show ?thesis by blast
qed

subsection \<open>Recording the language of a cell in its metadata\<close>

lemma findIndex_from_found:
  "x \<in> set xs \<Longrightarrow> findIndex_from (\<lambda>c. c = x) xs i = i + int (length (takeWhile (\<lambda>c. c \<noteq> x) xs))"
  by (induction xs arbitrary: i) auto

lemma findIndex_from_missing:
  "x \<notin> set xs \<Longrightarrow> findIndex_from (\<lambda>c. c = x) xs i = -1"
  by (induction xs arbitrary: i) auto

lemma findIndex_found:
  assumes "x \<in> set xs"
  shows "0 \<le> findIndex (\<lambda>c. c = x) xs" and "findIndex (\<lambda>c. c = x) xs < int (length xs)"
    and "xs ! nat (findIndex (\<lambda>c. c = x) xs) = x"
proof -
  have eq: "findIndex (\<lambda>c. c = x) xs = int (length (takeWhile (\<lambda>c. c \<noteq> x) xs))"
    using assms by (simp add: findIndex_def findIndex_from_found)
  show "0 \<le> findIndex (\<lambda>c. c = x) xs" by (simp add: eq)
  have lt: "length (takeWhile (\<lambda>c. c \<noteq> x) xs) < length xs"
    using assms by (induction xs) auto
  then show "findIndex (\<lambda>c. c = x) xs < int (length xs)" by (simp add: eq)
  from nth_length_takeWhile [OF lt] show "xs ! nat (findIndex (\<lambda>c. c = x) xs) = x"
    by (simp add: eq)
qed

lemma findIndex_missing: "x \<notin> set xs \<Longrightarrow> findIndex (\<lambda>c. c = x) xs = -1"
  by (simp add: findIndex_def findIndex_from_missing)

text \<open>
  C5. \<^verbatim>\<open>updateCellLanguageInMetadata\<close> applies an edit if and only if the language of
  the event is a dotnet-interactive language and the cell of the event is among the
  cells of the document. The edit then replaces the metadata of that cell, at the index
  where the document holds it, by \<^verbatim>\<open>withDotNetMetadata\<close> of the cell's metadata and the
  language \<^verbatim>\<open>getSimpleLanguage(language)\<close>, and changes nothing else. In every other
  case no edit is created or applied.
\<close>

theorem updateCellLanguageInMetadata_edit:
  "(isDotnetInteractiveLanguage md lang \<and> cell \<in> set (doc_cells document) \<longrightarrow>
      updateCellLanguageInMetadata md h cell document lang =
        Some [ReplaceNotebookCellMetadata (doc_uri document)
                (findIndex (\<lambda>c. c = cell) (doc_cells document))
                (withDotNetMetadata md (cell_metadata (h cell))
                   \<lparr>cm_language = getSimpleLanguage md lang\<rparr>)]
      \<and> 0 \<le> findIndex (\<lambda>c. c = cell) (doc_cells document)
      \<and> findIndex (\<lambda>c. c = cell) (doc_cells document) < int (length (doc_cells document))
      \<and> doc_cells document ! nat (findIndex (\<lambda>c. c = cell) (doc_cells document)) = cell
      \<and> contents_after h document (updateCellLanguageInMetadata md h cell document lang) =
          (map (\<lambda>c. cell_contents (h c)) (doc_cells document))
            [nat (findIndex (\<lambda>c. c = cell) (doc_cells document)) :=
               (cell_contents (h cell))
                 \<lparr>metadata := withDotNetMetadata md (cell_metadata (h cell))
                                \<lparr>cm_language = getSimpleLanguage md lang\<rparr>\<rparr>])
   \<and> (\<not> (isDotnetInteractiveLanguage md lang \<and> cell \<in> set (doc_cells document)) \<longrightarrow>
        updateCellLanguageInMetadata md h cell document lang = None)"
proof (intro conjI impI)
  assume a: "isDotnetInteractiveLanguage md lang \<and> cell \<in> set (doc_cells document)"
  then have mem: "cell \<in> set (doc_cells document)" by simp
  note idx = findIndex_found [OF mem]
  show "updateCellLanguageInMetadata md h cell document lang =
        Some [ReplaceNotebookCellMetadata (doc_uri document)
                (findIndex (\<lambda>c. c = cell) (doc_cells document))
                (withDotNetMetadata md (cell_metadata (h cell))
                   \<lparr>cm_language = getSimpleLanguage md lang\<rparr>)]"
    using a idx(1) by (simp add: updateCellLanguageInMetadata_def Let_def)
  then show "contents_after h document (updateCellLanguageInMetadata md h cell document lang) =
          (map (\<lambda>c. cell_contents (h c)) (doc_cells document))
            [nat (findIndex (\<lambda>c. c = cell) (doc_cells document)) :=
               (cell_contents (h cell))
                 \<lparr>metadata := withDotNetMetadata md (cell_metadata (h cell))
                                \<lparr>cm_language = getSimpleLanguage md lang\<rparr>\<rparr>]"
    using idx(1,2) by (simp add: contents_after_def) (subst idx(3), rule refl)
  show "0 \<le> findIndex (\<lambda>c. c = cell) (doc_cells document)" by (rule idx(1))
  show "findIndex (\<lambda>c. c = cell) (doc_cells document) < int (length (doc_cells document))"
    by (rule idx(2))
  show "doc_cells document ! nat (findIndex (\<lambda>c. c = cell) (doc_cells document)) = cell"
    by (rule idx(3))
next
  assume "\<not> (isDotnetInteractiveLanguage md lang \<and> cell \<in> set (doc_cells document))"
  then show "updateCellLanguageInMetadata md h cell document lang = None"
    by (auto simp: updateCellLanguageInMetadata_def Let_def findIndex_missing)
qed

theorem updateCellLanguageInMetadata_edit_witness:
  "isDotnetInteractiveLanguage sample_modules ''dotnet-interactive.fsharp''
   \<and> 2 \<in> set (doc_cells sample_document)
   \<and> updateCellLanguageInMetadata sample_modules sample_heap 2 sample_document
        ''dotnet-interactive.fsharp''
      = Some [ReplaceNotebookCellMetadata (Uri_file ''/work/a.dib'') 2 (JString ''fsharp'')]
   \<and> updateCellLanguageInMetadata sample_modules sample_heap 2 sample_document ''markdown'' = None
   \<and> updateCellLanguageInMetadata sample_modules sample_heap 7 sample_document
        ''dotnet-interactive.fsharp'' = None"
proof -
  have interactive: "isDotnetInteractiveLanguage sample_modules ''dotnet-interactive.fsharp''"
    by (simp add: sample_modules_def)
  have plain: "\<not> isDotnetInteractiveLanguage sample_modules ''markdown''"
    by (simp add: sample_modules_def)
  have present: "2 \<in> set (doc_cells sample_document)"
    by (simp add: sample_document_def)
  have absent: "7 \<notin> set (doc_cells sample_document)"
    by (simp add: sample_document_def)
  from interactive present
    updateCellLanguageInMetadata_edit [of sample_modules "''dotnet-interactive.fsharp''" 2
      sample_document sample_heap]
  have "updateCellLanguageInMetadata sample_modules sample_heap 2 sample_document
          ''dotnet-interactive.fsharp'' =
        Some [ReplaceNotebookCellMetadata (doc_uri sample_document)
                (findIndex (\<lambda>c. c = 2) (doc_cells sample_document))
                (withDotNetMetadata sample_modules (cell_metadata (sample_heap 2))
                   \<lparr>cm_language = getSimpleLanguage sample_modules ''dotnet-interactive.fsharp''\<rparr>)]"
    by blast
  then have edit: "updateCellLanguageInMetadata sample_modules sample_heap 2 sample_document
        ''dotnet-interactive.fsharp''
      = Some [ReplaceNotebookCellMetadata (Uri_file ''/work/a.dib'') 2 (JString ''fsharp'')]"
    by (simp add: sample_modules_def sample_document_def findIndex_def)
  from plain updateCellLanguageInMetadata_edit [of sample_modules "''markdown''" 2
      sample_document sample_heap]
  have no_edit: "updateCellLanguageInMetadata sample_modules sample_heap 2 sample_document
      ''markdown'' = None"
    by blast
  from absent updateCellLanguageInMetadata_edit [of sample_modules "''dotnet-interactive.fsharp''" 7
      sample_document sample_heap]
  have no_edit': "updateCellLanguageInMetadata sample_modules sample_heap 7 sample_document
      ''dotnet-interactive.fsharp'' = None"
    by blast
  from interactive present edit no_edit no_edit' show ?thesis by blast
qed

subsection \<open>Closing a document\<close>

text \<open>
  C6. When the host reports after activation that a notebook document was closed,
  \<^verbatim>\<open>clientMapper.closeClient\<close> is called exactly once, with the URI of that document.
  By its contract the call removes the transport stored for that URI and disposes of it,
  and changes nothing when no transport is stored for it.
\<close>

theorem close_event_closes_client:
  "closeClient_calls (act_subscriptions (snd (activate md out host))) document = [doc_uri document]
   \<and> didCloseNotebookDocument (act_subscriptions (snd (activate md out host))) document m =
       closeClient (doc_uri document) m
   \<and> (table m (doc_uri document) = None \<longrightarrow> closeClient (doc_uri document) m = m)
   \<and> (\<forall>t. table m (doc_uri document) = Some t \<longrightarrow>
         closeClient (doc_uri document) m =
           m\<lparr>table := (table m)(doc_uri document := None), disposed := disposed m @ [t]\<rparr>)"
  by (simp add: activate_def Let_def didCloseNotebookDocument_def closeClient_def)

theorem close_event_closes_client_witness:
  "closeClient_calls (act_subscriptions sample_activation) sample_document = [Uri_file ''/work/a.dib'']
   \<and> table (empty_mapper\<lparr>table := [Uri_file ''/work/a.dib'' \<mapsto> 5]\<rparr>) (doc_uri sample_document) = Some 5
   \<and> table (didCloseNotebookDocument (act_subscriptions sample_activation) sample_document
        (empty_mapper\<lparr>table := [Uri_file ''/work/a.dib'' \<mapsto> 5]\<rparr>)) (Uri_file ''/work/a.dib'') = None
   \<and> disposed (didCloseNotebookDocument (act_subscriptions sample_activation) sample_document
        (empty_mapper\<lparr>table := [Uri_file ''/work/a.dib'' \<mapsto> 5]\<rparr>)) = [5]
   \<and> table empty_mapper (doc_uri sample_document) = None
   \<and> didCloseNotebookDocument (act_subscriptions sample_activation) sample_document empty_mapper
      = empty_mapper"
  using close_event_closes_client [of sample_modules sample_outside sample_settings sample_document
      "empty_mapper\<lparr>table := [Uri_file ''/work/a.dib'' \<mapsto> 5]\<rparr>"]
    close_event_closes_client [of sample_modules sample_outside sample_settings sample_document
      empty_mapper]
  by (simp add: sample_activation_def [symmetric] sample_document_def empty_mapper_def)

subsection \<open>Single-flight creation in the client mapper\<close>

lemma mapper_run_Cons: "mapper_run (ev # evs) m = mapper_run evs (mapper_step ev m)"
  by (simp add: mapper_run_def)

lemma mapper_run_snoc: "mapper_run (evs @ [ev]) m = mapper_step ev (mapper_run evs m)"
  by (simp add: mapper_run_def)

text \<open>An event of another document leaves the entry of \<open>d\<close> as it is.\<close>

lemma mapper_step_other:
  assumes "event_key ev \<noteq> d"
  shows "table (mapper_step ev m) d = table m d"
    and "inflight (mapper_step ev m) d = inflight m d"
    and "count_list (launches (mapper_step ev m)) d = count_list (launches m) d"
  using assms
  by (cases ev; simp add: getOrCreateClient_def factorySettled_def closeClient_def
        split: option.split sum.split)+

lemma getOrCreateClient_first:
  assumes "table m d = None" and "inflight m d = None"
  shows "table (getOrCreateClient c d m) d = None"
    and "inflight (getOrCreateClient c d m) d = Some [c]"
    and "count_list (launches (getOrCreateClient c d m)) d = count_list (launches m) d + 1"
  using assms by (simp_all add: getOrCreateClient_def)

lemma getOrCreateClient_join:
  assumes "table m d = None" and "inflight m d = Some ws"
  shows "table (getOrCreateClient c d m) d = None"
    and "inflight (getOrCreateClient c d m) d = Some (ws @ [c])"
    and "count_list (launches (getOrCreateClient c d m)) d = count_list (launches m) d"
  using assms by (simp_all add: getOrCreateClient_def)

text \<open>
  While callers join a creation in flight, the waiting list grows and the factory is not
  invoked again.
\<close>

lemma concurrent_calls_join:
  assumes "concurrent_calls d cs evs" and "table m d = None" and "inflight m d = Some ws"
  shows "table (mapper_run evs m) d = None
         \<and> inflight (mapper_run evs m) d = Some (ws @ cs)
         \<and> count_list (launches (mapper_run evs m)) d = count_list (launches m) d"
  using assms
proof (induction evs arbitrary: m cs ws)
  case Nil
  then show ?case by (cases cs) (simp_all add: mapper_run_def)
next
  case (Cons ev evs)
  show ?case
  proof (cases "event_key ev = d")
    case False
    then have rest: "concurrent_calls d cs evs"
      using Cons.prems(1) by (cases ev) simp_all
    from Cons.IH [OF rest, of "mapper_step ev m" ws] Cons.prems(2,3) False
    show ?thesis by (simp add: mapper_run_Cons mapper_step_other)
  next
    case True
    with Cons.prems(1) obtain c cs' where ev: "ev = GetOrCreate c d" and cs: "cs = c # cs'"
      and rest: "concurrent_calls d cs' evs"
      by (cases ev; cases cs) simp_all
    from Cons.IH [OF rest, of "getOrCreateClient c d m" "ws @ [c]"]
      getOrCreateClient_join [OF Cons.prems(2,3), of c]
    show ?thesis by (simp add: mapper_run_Cons ev cs)
  qed
qed

lemma concurrent_calls_first:
  assumes "concurrent_calls d cs evs" and "cs \<noteq> []"
    and "table m d = None" and "inflight m d = None"
  shows "table (mapper_run evs m) d = None
         \<and> inflight (mapper_run evs m) d = Some cs
         \<and> count_list (launches (mapper_run evs m)) d = count_list (launches m) d + 1"
  using assms
proof (induction evs arbitrary: m)
  case Nil
  then show ?case by (cases cs) simp_all
next
  case (Cons ev evs)
  show ?case
  proof (cases "event_key ev = d")
    case False
    then have rest: "concurrent_calls d cs evs"
      using Cons.prems(1) by (cases ev) simp_all
    from Cons.IH [OF rest Cons.prems(2), of "mapper_step ev m"] Cons.prems(3,4) False
    show ?thesis by (simp add: mapper_run_Cons mapper_step_other)
  next
    case True
    with Cons.prems(1,2) obtain c cs' where ev: "ev = GetOrCreate c d" and cs: "cs = c # cs'"
      and rest: "concurrent_calls d cs' evs"
      by (cases ev; cases cs) simp_all
    from concurrent_calls_join [OF rest, of "getOrCreateClient c d m" "[c]"]
      getOrCreateClient_first [OF Cons.prems(3,4), of c]
    show ?thesis by (simp add: mapper_run_Cons ev cs)
  qed
qed

text \<open>
  C7. Let the mapper hold no entry for the document \<open>d\<close> and no creation in flight for
  it, and let one or more callers call \<^verbatim>\<open>getOrCreateClient(d)\<close> before the creation
  settles, interleaved in any way with events of other documents. Then the factory is
  invoked exactly once for \<open>d\<close> (one launch: an invocation of the factory constructs at
  most one transport, see \<open>clientFactory_constructs_at_most_once\<close>), and when it
  settles every caller observes the same outcome: the same transport, which is then the
  entry of \<open>d\<close>, or the same failure, and then no entry is cached for \<open>d\<close> and the
  next call invokes the factory again.
\<close>

theorem single_flight_creation:
  assumes "table m d = None" and "inflight m d = None"
    and "callers \<noteq> []" and "concurrent_calls d callers evs"
  shows "count_list (launches (mapper_run (evs @ [Settled d r]) m)) d = count_list (launches m) d + 1
    \<and> (\<forall>c \<in> set callers. observed (mapper_run (evs @ [Settled d r]) m) c = Some r)
    \<and> table (mapper_run (evs @ [Settled d r]) m) d = (case r of Inl e \<Rightarrow> None | Inr t \<Rightarrow> Some t)
    \<and> inflight (mapper_run (evs @ [Settled d r]) m) d = None
    \<and> (\<forall>e. r = Inl e \<longrightarrow>
          count_list (launches (getOrCreateClient c' d (mapper_run (evs @ [Settled d r]) m))) d
            = count_list (launches m) d + 2)"
proof -
  from concurrent_calls_first [OF assms(4,3,1,2)]
  have before: "table (mapper_run evs m) d = None"
    "inflight (mapper_run evs m) d = Some callers"
    "count_list (launches (mapper_run evs m)) d = count_list (launches m) d + 1"
    by simp_all
  then show ?thesis
    by (cases r) (simp_all add: mapper_run_snoc factorySettled_def getOrCreateClient_def)
qed

theorem single_flight_creation_witness:
  "concurrent_calls (Uri_file ''/work/a.dib'') [1, 2, 3]
     [GetOrCreate 1 (Uri_file ''/work/a.dib''), GetOrCreate 7 (Uri_file ''/work/b.dib''),
      GetOrCreate 2 (Uri_file ''/work/a.dib''), Settled (Uri_file ''/work/b.dib'') (Inr 40),
      Close (Uri_file ''/work/b.dib''), GetOrCreate 3 (Uri_file ''/work/a.dib'')]
   \<and> count_list (launches (mapper_run
        ([GetOrCreate 1 (Uri_file ''/work/a.dib''), GetOrCreate 7 (Uri_file ''/work/b.dib''),
          GetOrCreate 2 (Uri_file ''/work/a.dib''), Settled (Uri_file ''/work/b.dib'') (Inr 40),
          Close (Uri_file ''/work/b.dib''), GetOrCreate 3 (Uri_file ''/work/a.dib'')]
         @ [Settled (Uri_file ''/work/a.dib'') (Inr 41)]) empty_mapper)) (Uri_file ''/work/a.dib'') = 1
   \<and> map (observed (mapper_run
        ([GetOrCreate 1 (Uri_file ''/work/a.dib''), GetOrCreate 7 (Uri_file ''/work/b.dib''),
          GetOrCreate 2 (Uri_file ''/work/a.dib''), Settled (Uri_file ''/work/b.dib'') (Inr 40),
          Close (Uri_file ''/work/b.dib''), GetOrCreate 3 (Uri_file ''/work/a.dib'')]
         @ [Settled (Uri_file ''/work/a.dib'') (Inr 41)]) empty_mapper)) [1, 2, 3]
       = [Some (Inr 41), Some (Inr 41), Some (Inr 41)]
   \<and> table (mapper_run
        ([GetOrCreate 1 (Uri_file ''/work/a.dib''), GetOrCreate 7 (Uri_file ''/work/b.dib''),
          GetOrCreate 2 (Uri_file ''/work/a.dib''), Settled (Uri_file ''/work/b.dib'') (Inr 40),
          Close (Uri_file ''/work/b.dib''), GetOrCreate 3 (Uri_file ''/work/a.dib'')]
         @ [Settled (Uri_file ''/work/a.dib'') (Inl (Rejected ''no kernel''))]) empty_mapper)
       (Uri_file ''/work/a.dib'') = None"
proof -
  let ?d = "Uri_file ''/work/a.dib''"
  let ?evs = "[GetOrCreate 1 ?d, GetOrCreate 7 (Uri_file ''/work/b.dib''),
      GetOrCreate 2 ?d, Settled (Uri_file ''/work/b.dib'') (Inr 40),
      Close (Uri_file ''/work/b.dib''), GetOrCreate 3 ?d] :: (uri, nat) mapper_event list"
  have no_entry: "table empty_mapper ?d = None" "inflight empty_mapper ?d = None"
    by (simp_all add: empty_mapper_def)
  have callers: "[1, 2, 3] \<noteq> ([] :: nat list)" by simp
  have calls: "concurrent_calls ?d [1, 2, 3] ?evs" by simp
  have no_launch: "count_list (launches empty_mapper) ?d = 0"
    by (simp add: empty_mapper_def)
  from single_flight_creation [OF no_entry callers calls, of "Inr 41"] no_launch
  have created: "count_list (launches (mapper_run (?evs @ [Settled ?d (Inr 41)]) empty_mapper)) ?d = 1"
    "\<forall>c \<in> set [1, 2, 3]. observed (mapper_run (?evs @ [Settled ?d (Inr 41)]) empty_mapper) c
        = Some (Inr 41)"
    by simp_all
  from single_flight_creation [OF no_entry callers calls, of "Inl (Rejected ''no kernel'')"]
  have failed: "table (mapper_run (?evs @ [Settled ?d (Inl (Rejected ''no kernel''))]) empty_mapper) ?d
      = None"
    by simp
  from calls created failed show ?thesis by simp
qed

subsection \<open>The runtime is acquired once\<close>

text \<open>
  C9. Within one activation, however many clients the factory creates and whatever
  happens in between, the version check of \<^verbatim>\<open>getDotnetPath\<close> is made exactly once and
  the command \<^verbatim>\<open>dotnet.acquire\<close> is executed at most once: the promise is created in
  \<^verbatim>\<open>activate\<close> and every invocation of the factory awaits it. Every transport the
  factory returns was started from the path that promise resolved to.
\<close>

theorem dotnet_path_acquired_once:
  "length (filter version_check (session_trace md out host steps)) = 1
   \<and> length (filter acquire_command (session_trace md out host steps)) \<le> 1
   \<and> (\<forall>(h, r) \<in> set (run_session md (snd (activate md out host)) host steps).
        \<forall>t. snd r = Inr t \<longrightarrow>
          (\<exists>dp template path workingDirectory.
             snd (getDotnetPath md out host) = Inr dp
             \<and> tr_processStart t = processArguments md template path dp workingDirectory))"
proof (intro conjI)
  show "length (filter version_check (session_trace md out host steps)) = 1"
    by (simp add: session_acquisition getDotnetPath_acquisition)
  show "length (filter acquire_command (session_trace md out host steps)) \<le> 1"
    using getDotnetPath_acquisition [of md out host] by (simp add: session_acquisition)
  show "\<forall>(h, r) \<in> set (run_session md (snd (activate md out host)) host steps).
        \<forall>t. snd r = Inr t \<longrightarrow>
          (\<exists>dp template path workingDirectory.
             snd (getDotnetPath md out host) = Inr dp
             \<and> tr_processStart t = processArguments md template path dp workingDirectory)"
  proof (intro ballI, clarify)
    fix h tr r t
    assume mem: "(h, tr, r) \<in> set (run_session md (snd (activate md out host)) host steps)"
      and ret: "snd (tr, r) = Inr t"
    have promise: "act_dotnetPromise (snd (activate md out host)) = snd (getDotnetPath md out host)"
      by (simp add: activate_def Let_def)
    from run_session_same_path [OF mem ret] promise
    show "\<exists>dp template path workingDirectory.
             snd (getDotnetPath md out host) = Inr dp
             \<and> tr_processStart t = processArguments md template path dp workingDirectory"
      by auto
  qed
qed

theorem dotnet_path_acquired_once_witness:
  "length (filter version_check (session_trace sample_modules sample_outside sample_settings
      [CreateClient sample_outside ''/work/a.dib'', CreateClient sample_outside ''/work/b.dib''])) = 1
   \<and> map (\<lambda>(h, r). map_sum id (\<lambda>t. fst (snd (snd (tr_processStart t)))) (snd r))
        (run_session sample_modules sample_activation sample_settings
          [CreateClient sample_outside ''/work/a.dib'', CreateClient sample_outside ''/work/b.dib''])
      = [Inr ''dotnet'', Inr ''dotnet'']"
  using dotnet_path_acquired_once [of sample_modules sample_outside sample_settings
      "[CreateClient sample_outside ''/work/a.dib'', CreateClient sample_outside ''/work/b.dib'']"]
  by (simp add: sample_creation)

subsection \<open>The delay of live diagnostics\<close>

text \<open>
  C10. If the setting \<^verbatim>\<open>liveDiagnosticDelay\<close> is absent (it then reads as undefined),
  zero or otherwise falsy, the delay is 500, and otherwise it is the configured value;
  this delay is the one, and the only one, passed to \<^verbatim>\<open>registerLanguageProviders\<close>.
\<close>

theorem diagnosticDelay_fallback:
  "act_diagnosticDelay (snd (activate md out host)) =
     (if truthy (host ''liveDiagnosticDelay'') then host ''liveDiagnosticDelay''
      else JNumber (Finite 500))
   \<and> languageProviderDelays (act_subscriptions (snd (activate md out host))) =
       [act_diagnosticDelay (snd (activate md out host))]"
  by (simp add: activate_def Let_def js_or_def config_get_def getConfiguration_def)

theorem diagnosticDelay_fallback_witness:
  "act_diagnosticDelay (snd (activate sample_modules sample_outside sample_settings))
     = JNumber (Finite 500)
   \<and> act_diagnosticDelay (snd (activate sample_modules sample_outside
        (sample_settings(''liveDiagnosticDelay'' := JNumber (Finite 0)))))
     = JNumber (Finite 500)
   \<and> act_diagnosticDelay (snd (activate sample_modules sample_outside
        (sample_settings(''liveDiagnosticDelay'' := JNumber NaN))))
     = JNumber (Finite 500)
   \<and> act_diagnosticDelay (snd (activate sample_modules sample_outside
        (sample_settings(''liveDiagnosticDelay'' := JNumber (Finite 250)))))
     = JNumber (Finite 250)"
  using diagnosticDelay_fallback [of sample_modules sample_outside sample_settings]
    diagnosticDelay_fallback [of sample_modules sample_outside
      "sample_settings(''liveDiagnosticDelay'' := JNumber (Finite 0))"]
    diagnosticDelay_fallback [of sample_modules sample_outside
      "sample_settings(''liveDiagnosticDelay'' := JNumber NaN)"]
    diagnosticDelay_fallback [of sample_modules sample_outside
      "sample_settings(''liveDiagnosticDelay'' := JNumber (Finite 250))"]
  by (simp add: sample_settings_def)

end
